theory Spec2Isabelle
  imports Complex_Main "HOL-Library.Word" "HOL-Library.Sublist"
begin

section \<open>Go library functions used by pkg/cli/flags.go\<close>

subsection \<open>Strings\<close>

text \<open>
  A Go string is a sequence of bytes; it is modelled as a \<open>string\<close> (a list of
  \<open>char\<close>, one \<open>char\<close> per byte).
\<close>

definition is_digit :: "char \<Rightarrow> bool" where
  "is_digit c = (let n = (of_char c :: nat) in 48 \<le> n \<and> n \<le> 57)"

text \<open>
  \<open>regexp.MatchString(`^[0-9]+:[0-9]+$`, s)\<close>. The pattern is a constant that
  compiles, so the call never returns an error; without the multi-line flag \<open>$\<close>
  matches at the end of the text only. The pattern is anchored on both sides, so the
  match is membership of the whole string in digits, a colon, digits.
\<close>

definition MatchString_ratio :: "string \<Rightarrow> bool" where
  "MatchString_ratio s =
     (let a = takeWhile is_digit s; r = dropWhile is_digit s
      in a \<noteq> [] \<and>
         (case r of [] \<Rightarrow> False
          | c # b \<Rightarrow> c = CHR '':'' \<and> b \<noteq> [] \<and> list_all is_digit b))"

text \<open>\<open>strings.Split(s, sep)\<close> for a one-byte separator.\<close>

fun Split :: "string \<Rightarrow> char \<Rightarrow> string list" where
  "Split [] sep = [[]]"
| "Split (c # cs) sep =
     (if c = sep then [] # Split cs sep
      else (case Split cs sep of [] \<Rightarrow> [[c]] | p # ps \<Rightarrow> (c # p) # ps))"

text \<open>\<open>strings.Join(elems, sep)\<close>.\<close>

fun Join :: "string list \<Rightarrow> string \<Rightarrow> string" where
  "Join [] sep = []"
| "Join [x] sep = x"
| "Join (x # y # ys) sep = x @ sep @ Join (y # ys) sep"

text \<open>
  \<open>strconv.Atoi\<close> on a platform whose \<open>int\<close> has 64 bits (the build of this
  repository targets amd64): an optional sign, then one or more decimal digits; a
  value outside the range of \<open>int\<close> is an error.
\<close>

definition parse_dec :: "string \<Rightarrow> nat" where
  "parse_dec s = foldl (\<lambda>acc c. 10 * acc + ((of_char c :: nat) - 48)) 0 s"

definition Atoi :: "string \<Rightarrow> 64 word option" where
  "Atoi s =
     (case s of
        [] \<Rightarrow> None
      | c # cs \<Rightarrow>
          if c = CHR ''-'' then
            (if cs \<noteq> [] \<and> list_all is_digit cs \<and> parse_dec cs \<le> 2 ^ 63
             then Some (- word_of_nat (parse_dec cs)) else None)
          else
            (let ds = (if c = CHR ''+'' then cs else s)
             in if ds \<noteq> [] \<and> list_all is_digit ds \<and> parse_dec ds \<le> 2 ^ 63 - 1
                then Some (word_of_nat (parse_dec ds)) else None))"

subsection \<open>float64\<close>

text \<open>
  An IEEE 754 binary64 value: a finite number (held as the rational it denotes), an
  infinity or a NaN. The sign of a zero is not represented: the conversions and
  comparisons of this file never tell the two zeros apart.
\<close>

datatype float64 = FNum rat | FPosInf | FNegInf | FNaN

fun bitlen :: "nat \<Rightarrow> nat" where
  "bitlen n = (if n = 0 then 0 else Suc (bitlen (n div 2)))"

declare bitlen.simps [simp del]

definition pow2 :: "int \<Rightarrow> rat" where
  "pow2 e = (if 0 \<le> e then 2 ^ nat e else 1 / 2 ^ nat (- e))"

text \<open>The integer part of the binary logarithm of a positive rational.\<close>

definition ilog2 :: "rat \<Rightarrow> int" where
  "ilog2 q =
     (let (n, d) = quotient_of q;
          k = int (bitlen (nat n)) - int (bitlen (nat d))
      in if pow2 k \<le> q then k else k - 1)"

text \<open>Rounding to the nearest integer, ties to even.\<close>

definition round_half_even :: "rat \<Rightarrow> int" where
  "round_half_even x =
     (let f = \<lfloor>x\<rfloor>; r = x - of_int f
      in if r < 1 / 2 then f
         else if 1 / 2 < r then f + 1
         else if even f then f else f + 1)"

text \<open>
  Rounding a rational to binary64 (round to nearest, ties to even): 53 significant
  bits, exponents from \<open>-1022\<close> (below it the spacing stays \<open>2 ^ -1074\<close>), overflow to
  an infinity from \<open>2 ^ 1024\<close> on.
\<close>

definition f64_round :: "rat \<Rightarrow> float64" where
  "f64_round q =
     (if q = 0 then FNum 0
      else
        let a = \<bar>q\<bar>;
            u = max (ilog2 a) (- 1022) - 52;
            v = of_int (round_half_even (a / pow2 u)) * pow2 u
        in if pow2 1024 \<le> v then (if 0 < q then FPosInf else FNegInf)
           else FNum (if 0 < q then v else - v))"

text \<open>The conversion \<open>float64(i)\<close> of an \<open>int\<close>.\<close>

definition float64_of_int :: "64 word \<Rightarrow> float64" where
  "float64_of_int i = f64_round (of_int (sint i))"

text \<open>The quotient \<open>x / y\<close> of two float64 values; dividing by zero does not panic.\<close>

fun f64_div :: "float64 \<Rightarrow> float64 \<Rightarrow> float64" where
  "f64_div FNaN y = FNaN"
| "f64_div x FNaN = FNaN"
| "f64_div (FNum x) (FNum y) =
     (if y = 0 then (if x = 0 then FNaN else if 0 < x then FPosInf else FNegInf)
      else f64_round (x / y))"
| "f64_div (FNum x) y = FNum 0"
| "f64_div FPosInf (FNum y) = (if 0 \<le> y then FPosInf else FNegInf)"
| "f64_div FNegInf (FNum y) = (if 0 \<le> y then FNegInf else FPosInf)"
| "f64_div x y = FNaN"

text \<open>The comparison \<open>x > y\<close> of two float64 values: false when either is a NaN.\<close>

fun f64_gt :: "float64 \<Rightarrow> float64 \<Rightarrow> bool" where
  "f64_gt FNaN y = False"
| "f64_gt x FNaN = False"
| "f64_gt (FNum x) (FNum y) = (y < x)"
| "f64_gt (FNum x) FPosInf = False"
| "f64_gt (FNum x) FNegInf = True"
| "f64_gt FPosInf FPosInf = False"
| "f64_gt FPosInf y = True"
| "f64_gt FNegInf y = False"

section \<open>The flag registry\<close>

subsection \<open>Values\<close>

text \<open>A compiled regular expression (\<open>*regexp.Regexp\<close>), holding its source text.\<close>

datatype Regexp = Regexp string

text \<open>
  Modelled from the spec: the package \<open>bytequantity\<close> is not among the sources. A
  ByteQuantity is a value object for a non-negative quantity of bytes whose canonical
  internal representation is an integer magnitude, in mebibytes; \<open>MiB\<close> returns that
  magnitude, and comparison is by it.
\<close>

datatype ByteQuantity = ByteQuantity nat

fun MiB :: "ByteQuantity \<Rightarrow> nat" where
  "MiB (ByteQuantity q) = q"

text \<open>
  The functions of other packages that the closures of this file call. They are
  parameters of the model: \<open>regexp.Compile\<close>, \<open>homedir.Expand\<close> (which reads the
  environment), \<open>strings.EqualFold\<close> (Unicode case folding), and of the package
  \<open>bytequantity\<close> the parser \<open>ParseToByteQuantity\<close> and the formatter \<open>StringGiB\<close>.
  \<open>None\<close> is the error return.
\<close>

record library =
  regexp_Compile :: "string \<Rightarrow> Regexp option"
  homedir_Expand :: "string \<Rightarrow> string option"
  strings_EqualFold :: "string \<Rightarrow> string \<Rightarrow> bool"
  ParseToByteQuantity :: "string \<Rightarrow> ByteQuantity option"
  StringGiB :: "ByteQuantity \<Rightarrow> string"

text \<open>
  An entry of \<open>cl.Flags\<close> is an \<open>interface{}\<close>: \<open>None\<close> is \<open>nil\<close>, and a non-nil
  entry is a pointer of one of the dynamic types the builders store. The model keeps the
  value behind the pointer. \<open>int\<close> has 64 bits.
\<close>

datatype flagval =
    BoolPtr bool
  | IntPtr "64 word"
  | Int32Ptr "32 word"
  | Float64Ptr float64
  | StringPtr string
  | StringSlicePtr "string list"
  | ByteQuantityPtr ByteQuantity
  | RegexpPtr Regexp

text \<open>
  What a call of a processor or validator does: it returns \<open>nil\<close>, returns an error
  (the message of \<open>fmt.Errorf\<close>), or panics in a failed type assertion or index.
\<close>

datatype ret = ReturnsNil | ReturnsError string | Panics

text \<open>
  The closures stored in \<open>cl.processors\<close> and \<open>cl.validators\<close>, each with the
  variables it captures (the flag's name, the allow-list). A function supplied by a
  caller of \<open>StringFlag\<close> is not code of this file; it is kept as a function of the
  value.
\<close>

datatype processor =
    ByteQuantityProcessor string
  | RegexProcessor string
  | PathProcessor string
  | CallerProcessor "flagval option \<Rightarrow> ret"

datatype validator =
    RatioValidator string
  | IntRangeValidator string
  | Int32RangeValidator string
  | Float64RangeValidator string
  | ByteQuantityRangeValidator string
  | ByteQuantityValidator string
  | StringOptionsValidator string "string list"
  | RegexValidator string
  | CallerValidator "flagval option \<Rightarrow> ret"

text \<open>
  The tables of \<open>CommandLineInterface\<close> that this file writes. Reading a key that a Go
  map does not hold gives the zero value: \<open>nil\<close> for \<open>Flags\<close>, \<open>processors\<close> and
  \<open>validators\<close>, \<open>false\<close> for \<open>nilDefaults\<close> and \<open>rangeFlags\<close>.
\<close>

record CommandLineInterface =
  Flags :: "string \<Rightarrow> flagval option"
  nilDefaults :: "string \<Rightarrow> bool"
  rangeFlags :: "string \<Rightarrow> bool"
  processors :: "string \<Rightarrow> processor option"
  validators :: "string \<Rightarrow> validator option"

text \<open>
  The three flag sets a flag can be registered on. \<open>pflag\<close>'s own bookkeeping (help
  text, shorthands, its panic on a name defined twice in one set) is outside the model:
  a registration call such as \<open>flagSet.Int(name, d, description)\<close> is its result, a
  pointer to a new variable holding \<open>d\<close>. The description, which only feeds the help
  text, is left out of the builders' parameters.
\<close>

datatype FlagSet = Command_Flags | Command_PersistentFlags | suiteFlags

subsection \<open>Type assertions\<close>

text \<open>\<open>x.(*T)\<close>: \<open>None\<close> is the panic of a failed assertion.\<close>

fun assert_int :: "flagval option \<Rightarrow> 64 word option" where
  "assert_int (Some (IntPtr i)) = Some i"
| "assert_int v = None"

fun assert_int32 :: "flagval option \<Rightarrow> 32 word option" where
  "assert_int32 (Some (Int32Ptr i)) = Some i"
| "assert_int32 v = None"

fun assert_float64 :: "flagval option \<Rightarrow> float64 option" where
  "assert_float64 (Some (Float64Ptr f)) = Some f"
| "assert_float64 v = None"

fun assert_ByteQuantity :: "flagval option \<Rightarrow> ByteQuantity option" where
  "assert_ByteQuantity (Some (ByteQuantityPtr bq)) = Some bq"
| "assert_ByteQuantity v = None"

fun assert_string :: "flagval option \<Rightarrow> string option" where
  "assert_string (Some (StringPtr s)) = Some s"
| "assert_string v = None"

subsection \<open>The validator of RatioFlag\<close>

fun RatioFlag_validator ::
  "string \<Rightarrow> CommandLineInterface \<Rightarrow> flagval option \<Rightarrow> CommandLineInterface \<times> ret" where
  "RatioFlag_validator name cl None = (cl, ReturnsNil)"
| "RatioFlag_validator name cl (Some (StringPtr vcpuToMemRatioVal)) =
     (if \<not> MatchString_ratio vcpuToMemRatioVal then
        (cl, ReturnsError (''invalid input for --'' @ name @ ''. A valid example is 1:2''))
      else
        (case Split vcpuToMemRatioVal CHR '':'' of
           v0 # v1 # rest \<Rightarrow>
             (case Atoi v0 of
                None \<Rightarrow>
                  (cl, ReturnsError (''invalid input for --'' @ name @
                         ''. Ratio values must be integers. A valid example is 1:2''))
              | Some vcpusRatioVal \<Rightarrow>
                  (case Atoi v1 of
                     None \<Rightarrow>
                       (cl, ReturnsError (''invalid input for --'' @ name @
                              ''. Ratio values must be integers. A valid example is 1:2''))
                   | Some memRatioVal \<Rightarrow>
                       (cl\<lparr>Flags := (Flags cl)(name \<mapsto>
                             Float64Ptr (f64_div (float64_of_int memRatioVal)
                                                 (float64_of_int vcpusRatioVal)))\<rparr>,
                        ReturnsNil)))
         | _ \<Rightarrow> (cl, Panics)))"
| "RatioFlag_validator name cl (Some v) = (cl, Panics)"

subsection \<open>The ordering validators of the range flags\<close>

definition range_Errorf :: "string \<Rightarrow> string \<Rightarrow> string" where
  "range_Errorf minArg maxArg =
     ''Invalid input for --'' @ minArg @ '' and --'' @ maxArg @ ''. '' @ minArg @
     '' must be less than or equal to '' @ maxArg"

definition IntMinMaxRange_validator ::
  "string \<Rightarrow> CommandLineInterface \<Rightarrow> flagval option \<Rightarrow> CommandLineInterface \<times> ret" where
  "IntMinMaxRange_validator name cl val =
     (if Flags cl (name @ ''-min'') = None \<or> Flags cl (name @ ''-max'') = None then
        (cl, ReturnsNil)
      else
        let minArg = name @ ''-min''; maxArg = name @ ''-max'' in
        (case assert_int (Flags cl minArg) of
           None \<Rightarrow> (cl, Panics)
         | Some minVal \<Rightarrow>
             (case assert_int (Flags cl maxArg) of
                None \<Rightarrow> (cl, Panics)
              | Some maxVal \<Rightarrow>
                  if sint maxVal < sint minVal
                  then (cl, ReturnsError (range_Errorf minArg maxArg))
                  else (cl, ReturnsNil))))"

definition Int32MinMaxRange_validator ::
  "string \<Rightarrow> CommandLineInterface \<Rightarrow> flagval option \<Rightarrow> CommandLineInterface \<times> ret" where
  "Int32MinMaxRange_validator name cl val =
     (if Flags cl (name @ ''-min'') = None \<or> Flags cl (name @ ''-max'') = None then
        (cl, ReturnsNil)
      else
        let minArg = name @ ''-min''; maxArg = name @ ''-max'' in
        (case assert_int32 (Flags cl minArg) of
           None \<Rightarrow> (cl, Panics)
         | Some minVal \<Rightarrow>
             (case assert_int32 (Flags cl maxArg) of
                None \<Rightarrow> (cl, Panics)
              | Some maxVal \<Rightarrow>
                  if sint maxVal < sint minVal
                  then (cl, ReturnsError (range_Errorf minArg maxArg))
                  else (cl, ReturnsNil))))"

definition Float64MinMaxRange_validator ::
  "string \<Rightarrow> CommandLineInterface \<Rightarrow> flagval option \<Rightarrow> CommandLineInterface \<times> ret" where
  "Float64MinMaxRange_validator name cl val =
     (if Flags cl (name @ ''-min'') = None \<or> Flags cl (name @ ''-max'') = None then
        (cl, ReturnsNil)
      else
        let minArg = name @ ''-min''; maxArg = name @ ''-max'' in
        (case assert_float64 (Flags cl minArg) of
           None \<Rightarrow> (cl, Panics)
         | Some minVal \<Rightarrow>
             (case assert_float64 (Flags cl maxArg) of
                None \<Rightarrow> (cl, Panics)
              | Some maxVal \<Rightarrow>
                  if f64_gt minVal maxVal
                  then (cl, ReturnsError (range_Errorf minArg maxArg))
                  else (cl, ReturnsNil))))"

definition ByteQuantityMinMaxRange_validator ::
  "string \<Rightarrow> CommandLineInterface \<Rightarrow> flagval option \<Rightarrow> CommandLineInterface \<times> ret" where
  "ByteQuantityMinMaxRange_validator name cl val =
     (if Flags cl (name @ ''-min'') = None \<or> Flags cl (name @ ''-max'') = None then
        (cl, ReturnsNil)
      else
        let minArg = name @ ''-min''; maxArg = name @ ''-max'' in
        (case assert_ByteQuantity (Flags cl (name @ ''-min'')) of
           None \<Rightarrow> (cl, Panics)
         | Some minBq \<Rightarrow>
             (case assert_ByteQuantity (Flags cl (name @ ''-max'')) of
                None \<Rightarrow> (cl, Panics)
              | Some maxBq \<Rightarrow>
                  let minVal = MiB minBq; maxVal = MiB maxBq in
                  if maxVal < minVal
                  then (cl, ReturnsError (range_Errorf minArg maxArg))
                  else (cl, ReturnsNil))))"

subsection \<open>The processors and validators of the string-based builders\<close>

definition byteQuantity_invalidInputMsg :: "string \<Rightarrow> string" where
  "byteQuantity_invalidInputMsg name =
     ''Invalid input for --'' @ name @ ''. A valid example is 16gb.''"

fun byteQuantityProcessor ::
  "library \<Rightarrow> string \<Rightarrow> CommandLineInterface \<Rightarrow> flagval option \<Rightarrow>
   CommandLineInterface \<times> ret" where
  "byteQuantityProcessor lib name cl None = (cl, ReturnsNil)"
| "byteQuantityProcessor lib name cl (Some (StringPtr byteQuantityInput)) =
     (case ParseToByteQuantity lib byteQuantityInput of
        None \<Rightarrow>
          (cl, ReturnsError (byteQuantity_invalidInputMsg name @
                 '' Can't parse byte quantity '' @ byteQuantityInput))
      | Some bq \<Rightarrow>
          (cl\<lparr>Flags := (Flags cl)(name \<mapsto> ByteQuantityPtr bq)\<rparr>, ReturnsNil))"
| "byteQuantityProcessor lib name cl (Some (ByteQuantityPtr bq)) = (cl, ReturnsNil)"
| "byteQuantityProcessor lib name cl (Some v) =
     (cl, ReturnsError (byteQuantity_invalidInputMsg name @ '' Input type is unsupported''))"


text \<open>
  The loop of the string-options validator over \<open>validOpts\<close>: \<open>Some r\<close> when an
  iteration leaves the function (returning \<open>nil\<close>, or panicking in the type assertion
  on \<open>val\<close>), \<open>None\<close> when the loop runs to its end.
\<close>

fun validOpts_loop :: "library \<Rightarrow> string list \<Rightarrow> flagval option \<Rightarrow> ret option" where
  "validOpts_loop lib [] val = None"
| "validOpts_loop lib (v # vs) val =
     (case assert_string val of
        None \<Rightarrow> Some Panics
      | Some s \<Rightarrow>
          if strings_EqualFold lib v s then Some ReturnsNil else validOpts_loop lib vs val)"

definition StringOptions_validationFn ::
  "library \<Rightarrow> string \<Rightarrow> string list \<Rightarrow> CommandLineInterface \<Rightarrow> flagval option \<Rightarrow>
   CommandLineInterface \<times> ret" where
  "StringOptions_validationFn lib name validOpts cl val =
     (if val = None then (cl, ReturnsNil)
      else
        (case validOpts_loop lib validOpts val of
           Some r \<Rightarrow> (cl, r)
         | None \<Rightarrow>
             (cl, ReturnsError (''error '' @ name @ '' must be one of: '' @
                    Join validOpts '', ''))))"

definition regex_invalidInputMsg :: "string \<Rightarrow> string" where
  "regex_invalidInputMsg name = ''Invalid regex input for --'' @ name @ ''.''"

fun regexProcessor ::
  "library \<Rightarrow> string \<Rightarrow> CommandLineInterface \<Rightarrow> flagval option \<Rightarrow>
   CommandLineInterface \<times> ret" where
  "regexProcessor lib name cl None = (cl, ReturnsNil)"
| "regexProcessor lib name cl (Some (StringPtr v)) =
     (case regexp_Compile lib v of
        None \<Rightarrow>
          (cl, ReturnsError (regex_invalidInputMsg name @ '' Unable to compile the regex''))
      | Some regexVal \<Rightarrow>
          (cl\<lparr>Flags := (Flags cl)(name \<mapsto> RegexpPtr regexVal)\<rparr>, ReturnsNil))"
| "regexProcessor lib name cl (Some (RegexpPtr r)) = (cl, ReturnsNil)"
| "regexProcessor lib name cl (Some v) =
     (cl, ReturnsError (regex_invalidInputMsg name @ '' Input type is unsupported''))"


definition path_invalidInputMsg :: "string \<Rightarrow> string" where
  "path_invalidInputMsg name = ''Invalid path input for --'' @ name @ ''. ''"

fun pathProcessor ::
  "library \<Rightarrow> string \<Rightarrow> CommandLineInterface \<Rightarrow> flagval option \<Rightarrow>
   CommandLineInterface \<times> ret" where
  "pathProcessor lib name cl None = (cl, ReturnsNil)"
| "pathProcessor lib name cl (Some (StringPtr v)) =
     (case homedir_Expand lib v of
        None \<Rightarrow> (cl, ReturnsError (path_invalidInputMsg name @ '' Unable to expand path''))
      | Some path \<Rightarrow> (cl\<lparr>Flags := (Flags cl)(name \<mapsto> StringPtr path)\<rparr>, ReturnsNil))"
| "pathProcessor lib name cl (Some v) =
     (cl, ReturnsError (path_invalidInputMsg name @ '' Input type is unsupported''))"

subsection \<open>Calling a stored closure\<close>

fun run_processor ::
  "library \<Rightarrow> processor \<Rightarrow> CommandLineInterface \<Rightarrow> flagval option \<Rightarrow>
   CommandLineInterface \<times> ret" where
  "run_processor lib (ByteQuantityProcessor name) cl val = byteQuantityProcessor lib name cl val"
| "run_processor lib (RegexProcessor name) cl val = regexProcessor lib name cl val"
| "run_processor lib (PathProcessor name) cl val = pathProcessor lib name cl val"
| "run_processor lib (CallerProcessor f) cl val = (cl, f val)"



subsection \<open>The builders\<close>

text \<open>
  Each builder reads \<open>defaultValue\<close> (\<open>None\<close> is a nil pointer or nil slice), records
  a nil default in \<open>cl.nilDefaults\<close> and replaces it by the zero value, and stores the
  pointer that \<open>pflag\<close> returns in \<open>cl.Flags\<close>, with or without a shorthand. The
  exported wrappers (\<open>IntFlag\<close>, \<open>ConfigIntFlag\<close>, \<open>SuiteBoolFlag\<close>, ...) only pass
  one of the three flag sets to the builder of the same kind.
\<close>

definition BoolFlagOnFlagSet ::
  "CommandLineInterface \<Rightarrow> FlagSet \<Rightarrow> string \<Rightarrow> string option \<Rightarrow> bool option \<Rightarrow>
   CommandLineInterface" where
  "BoolFlagOnFlagSet cl flagSet name shorthand defaultValue =
     (let cl1 = (if defaultValue = None then cl\<lparr>nilDefaults := (nilDefaults cl)(name := True)\<rparr>
                 else cl);
          d = (case defaultValue of None \<Rightarrow> False | Some x \<Rightarrow> x)
      in if shorthand \<noteq> None then cl1\<lparr>Flags := (Flags cl1)(name \<mapsto> BoolPtr d)\<rparr>
         else cl1\<lparr>Flags := (Flags cl1)(name \<mapsto> BoolPtr d)\<rparr>)"

definition IntFlagOnFlagSet ::
  "CommandLineInterface \<Rightarrow> FlagSet \<Rightarrow> string \<Rightarrow> string option \<Rightarrow> 64 word option \<Rightarrow>
   CommandLineInterface" where
  "IntFlagOnFlagSet cl flagSet name shorthand defaultValue =
     (let cl1 = (if defaultValue = None then cl\<lparr>nilDefaults := (nilDefaults cl)(name := True)\<rparr>
                 else cl);
          d = (case defaultValue of None \<Rightarrow> 0 | Some x \<Rightarrow> x)
      in if shorthand \<noteq> None then cl1\<lparr>Flags := (Flags cl1)(name \<mapsto> IntPtr d)\<rparr>
         else cl1\<lparr>Flags := (Flags cl1)(name \<mapsto> IntPtr d)\<rparr>)"

definition Int32FlagOnFlagSet ::
  "CommandLineInterface \<Rightarrow> FlagSet \<Rightarrow> string \<Rightarrow> string option \<Rightarrow> 32 word option \<Rightarrow>
   CommandLineInterface" where
  "Int32FlagOnFlagSet cl flagSet name shorthand defaultValue =
     (let cl1 = (if defaultValue = None then cl\<lparr>nilDefaults := (nilDefaults cl)(name := True)\<rparr>
                 else cl);
          d = (case defaultValue of None \<Rightarrow> 0 | Some x \<Rightarrow> x)
      in if shorthand \<noteq> None then cl1\<lparr>Flags := (Flags cl1)(name \<mapsto> Int32Ptr d)\<rparr>
         else cl1\<lparr>Flags := (Flags cl1)(name \<mapsto> Int32Ptr d)\<rparr>)"

definition Float64FlagOnFlagSet ::
  "CommandLineInterface \<Rightarrow> FlagSet \<Rightarrow> string \<Rightarrow> string option \<Rightarrow> float64 option \<Rightarrow>
   CommandLineInterface" where
  "Float64FlagOnFlagSet cl flagSet name shorthand defaultValue =
     (let cl1 = (if defaultValue = None then cl\<lparr>nilDefaults := (nilDefaults cl)(name := True)\<rparr>
                 else cl);
          d = (case defaultValue of None \<Rightarrow> FNum 0 | Some x \<Rightarrow> x)
      in if shorthand \<noteq> None then cl1\<lparr>Flags := (Flags cl1)(name \<mapsto> Float64Ptr d)\<rparr>
         else cl1\<lparr>Flags := (Flags cl1)(name \<mapsto> Float64Ptr d)\<rparr>)"

definition StringFlagOnFlagSet ::
  "CommandLineInterface \<Rightarrow> FlagSet \<Rightarrow> string \<Rightarrow> string option \<Rightarrow> string option \<Rightarrow>
   processor option \<Rightarrow> validator option \<Rightarrow> CommandLineInterface" where
  "StringFlagOnFlagSet cl flagSet name shorthand defaultValue processorFn validationFn =
     (let cl1 = (if defaultValue = None then cl\<lparr>nilDefaults := (nilDefaults cl)(name := True)\<rparr>
                 else cl);
          d = (case defaultValue of None \<Rightarrow> [] | Some x \<Rightarrow> x);
          cl2 = (if shorthand \<noteq> None then cl1\<lparr>Flags := (Flags cl1)(name \<mapsto> StringPtr d)\<rparr>
                 else cl1\<lparr>Flags := (Flags cl1)(name \<mapsto> StringPtr d)\<rparr>);
          cl3 = cl2\<lparr>processors := (processors cl2)(name := processorFn)\<rparr>
      in cl3\<lparr>validators := (validators cl3)(name := validationFn)\<rparr>)"

definition StringSliceFlagOnFlagSet ::
  "CommandLineInterface \<Rightarrow> FlagSet \<Rightarrow> string \<Rightarrow> string option \<Rightarrow> string list option \<Rightarrow>
   CommandLineInterface" where
  "StringSliceFlagOnFlagSet cl flagSet name shorthand defaultValue =
     (let cl1 = (if defaultValue = None then cl\<lparr>nilDefaults := (nilDefaults cl)(name := True)\<rparr>
                 else cl);
          d = (case defaultValue of None \<Rightarrow> [] | Some x \<Rightarrow> x)
      in if shorthand \<noteq> None then cl1\<lparr>Flags := (Flags cl1)(name \<mapsto> StringSlicePtr d)\<rparr>
         else cl1\<lparr>Flags := (Flags cl1)(name \<mapsto> StringSlicePtr d)\<rparr>)"

text \<open>\<open>RatioFlag\<close> registers on \<open>cl.Command.Flags()\<close> and leaves \<open>cl.processors\<close> alone.\<close>

definition RatioFlag ::
  "CommandLineInterface \<Rightarrow> string \<Rightarrow> string option \<Rightarrow> string option \<Rightarrow>
   CommandLineInterface" where
  "RatioFlag cl name shorthand defaultValue =
     (let cl1 = (if defaultValue = None then cl\<lparr>nilDefaults := (nilDefaults cl)(name := True)\<rparr>
                 else cl);
          d = (case defaultValue of None \<Rightarrow> [] | Some x \<Rightarrow> x);
          cl2 = (if shorthand \<noteq> None then cl1\<lparr>Flags := (Flags cl1)(name \<mapsto> StringPtr d)\<rparr>
                 else cl1\<lparr>Flags := (Flags cl1)(name \<mapsto> StringPtr d)\<rparr>)
      in cl2\<lparr>validators := (validators cl2)(name \<mapsto> RatioValidator name)\<rparr>)"

definition ByteQuantityFlagOnFlagSet ::
  "library \<Rightarrow> CommandLineInterface \<Rightarrow> FlagSet \<Rightarrow> string \<Rightarrow> string option \<Rightarrow>
   ByteQuantity option \<Rightarrow> CommandLineInterface" where
  "ByteQuantityFlagOnFlagSet lib cl flagSet name shorthand defaultValue =
     (let stringDefaultValue =
            (case defaultValue of None \<Rightarrow> None | Some bq \<Rightarrow> Some (StringGiB lib bq))
      in StringFlagOnFlagSet cl flagSet name shorthand stringDefaultValue
           (Some (ByteQuantityProcessor name)) (Some (ByteQuantityValidator name)))"

definition StringOptionsFlagOnFlagSet ::
  "CommandLineInterface \<Rightarrow> FlagSet \<Rightarrow> string \<Rightarrow> string option \<Rightarrow> string option \<Rightarrow>
   string list \<Rightarrow> CommandLineInterface" where
  "StringOptionsFlagOnFlagSet cl flagSet name shorthand defaultValue validOpts =
     StringFlagOnFlagSet cl flagSet name shorthand defaultValue None
       (Some (StringOptionsValidator name validOpts))"

definition RegexFlagOnFlagSet ::
  "CommandLineInterface \<Rightarrow> FlagSet \<Rightarrow> string \<Rightarrow> string option \<Rightarrow> string option \<Rightarrow>
   CommandLineInterface" where
  "RegexFlagOnFlagSet cl flagSet name shorthand defaultValue =
     StringFlagOnFlagSet cl flagSet name shorthand defaultValue
       (Some (RegexProcessor name)) (Some (RegexValidator name))"

definition PathFlagOnFlagSet ::
  "CommandLineInterface \<Rightarrow> FlagSet \<Rightarrow> string \<Rightarrow> string option \<Rightarrow> string option \<Rightarrow>
   CommandLineInterface" where
  "PathFlagOnFlagSet cl flagSet name shorthand defaultValue =
     StringFlagOnFlagSet cl flagSet name shorthand defaultValue
       (Some (PathProcessor name)) None"

subsection \<open>The range builders\<close>

definition IntMinMaxRangeFlagOnFlagSet ::
  "CommandLineInterface \<Rightarrow> FlagSet \<Rightarrow> string \<Rightarrow> string option \<Rightarrow> 64 word option \<Rightarrow>
   CommandLineInterface" where
  "IntMinMaxRangeFlagOnFlagSet cl flagSet name shorthand defaultValue =
     (let cl1 = IntFlagOnFlagSet cl flagSet name shorthand defaultValue;
          cl2 = IntFlagOnFlagSet cl1 flagSet (name @ ''-min'') None None;
          cl3 = IntFlagOnFlagSet cl2 flagSet (name @ ''-max'') None None;
          cl4 = cl3\<lparr>validators := (validators cl3)(name \<mapsto> IntRangeValidator name)\<rparr>
      in cl4\<lparr>rangeFlags := (rangeFlags cl4)(name := True)\<rparr>)"

definition Int32MinMaxRangeFlagOnFlagSet ::
  "CommandLineInterface \<Rightarrow> FlagSet \<Rightarrow> string \<Rightarrow> string option \<Rightarrow> 32 word option \<Rightarrow>
   CommandLineInterface" where
  "Int32MinMaxRangeFlagOnFlagSet cl flagSet name shorthand defaultValue =
     (let cl1 = Int32FlagOnFlagSet cl flagSet name shorthand defaultValue;
          cl2 = Int32FlagOnFlagSet cl1 flagSet (name @ ''-min'') None None;
          cl3 = Int32FlagOnFlagSet cl2 flagSet (name @ ''-max'') None None;
          cl4 = cl3\<lparr>validators := (validators cl3)(name \<mapsto> Int32RangeValidator name)\<rparr>
      in cl4\<lparr>rangeFlags := (rangeFlags cl4)(name := True)\<rparr>)"

definition Float64MinMaxRangeFlagOnFlagSet ::
  "CommandLineInterface \<Rightarrow> FlagSet \<Rightarrow> string \<Rightarrow> string option \<Rightarrow> float64 option \<Rightarrow>
   CommandLineInterface" where
  "Float64MinMaxRangeFlagOnFlagSet cl flagSet name shorthand defaultValue =
     (let cl1 = Float64FlagOnFlagSet cl flagSet name shorthand defaultValue;
          cl2 = Float64FlagOnFlagSet cl1 flagSet (name @ ''-min'') None None;
          cl3 = Float64FlagOnFlagSet cl2 flagSet (name @ ''-max'') None None;
          cl4 = cl3\<lparr>validators := (validators cl3)(name \<mapsto> Float64RangeValidator name)\<rparr>
      in cl4\<lparr>rangeFlags := (rangeFlags cl4)(name := True)\<rparr>)"

definition ByteQuantityMinMaxRangeFlagOnFlagSet ::
  "library \<Rightarrow> CommandLineInterface \<Rightarrow> FlagSet \<Rightarrow> string \<Rightarrow> string option \<Rightarrow>
   ByteQuantity option \<Rightarrow> CommandLineInterface" where
  "ByteQuantityMinMaxRangeFlagOnFlagSet lib cl flagSet name shorthand defaultValue =
     (let cl1 = ByteQuantityFlagOnFlagSet lib cl flagSet name shorthand defaultValue;
          cl2 = ByteQuantityFlagOnFlagSet lib cl1 flagSet (name @ ''-min'') None None;
          cl3 = ByteQuantityFlagOnFlagSet lib cl2 flagSet (name @ ''-max'') None None;
          cl4 = cl3\<lparr>validators := (validators cl3)(name \<mapsto> ByteQuantityRangeValidator name)\<rparr>
      in cl4\<lparr>rangeFlags := (rangeFlags cl4)(name := True)\<rparr>)"

subsection \<open>Concrete registries and library functions for the examples\<close>

text \<open>A registry with no flag registered.\<close>

definition no_flags :: CommandLineInterface where
  "no_flags =
     \<lparr>Flags = Map.empty, nilDefaults = (\<lambda>k. False), rangeFlags = (\<lambda>k. False),
      processors = Map.empty, validators = Map.empty\<rparr>"

text \<open>
  Stand-ins for the library functions, used only to run the examples: case folding on
  the ASCII letters, a compiler that refuses one malformed expression, a home directory
  \<open>/home/u\<close>, and a byte-quantity parser that knows two inputs.
\<close>

definition ascii_fold :: "char \<Rightarrow> nat" where
  "ascii_fold c = (let n = (of_char c :: nat) in if 65 \<le> n \<and> n \<le> 90 then n + 32 else n)"

definition ascii_EqualFold :: "string \<Rightarrow> string \<Rightarrow> bool" where
  "ascii_EqualFold s t = (map ascii_fold s = map ascii_fold t)"

definition example_library :: library where
  "example_library =
     \<lparr>regexp_Compile = (\<lambda>s. if s = ''(unclosed'' then None else Some (Regexp s)),
      homedir_Expand =
        (\<lambda>p. case p of
                [] \<Rightarrow> Some []
              | c # cs \<Rightarrow> if c = CHR ''~'' then Some (''/home/u'' @ cs) else Some p),
      strings_EqualFold = ascii_EqualFold,
      ParseToByteQuantity =
        (\<lambda>s. if s = ''16gb'' then Some (ByteQuantity 16384)
             else if s = ''512mb'' then Some (ByteQuantity 512)
             else None),
      StringGiB = (\<lambda>bq. ''16.000'')\<rparr>"

section \<open>Properties\<close>

subsection \<open>Type assertions and messages\<close>

lemma assert_int_Some [simp]: "(assert_int v = Some i) = (v = Some (IntPtr i))"
  by (cases v rule: assert_int.cases) simp_all

lemma assert_int32_Some [simp]: "(assert_int32 v = Some i) = (v = Some (Int32Ptr i))"
  by (cases v rule: assert_int32.cases) simp_all

lemma assert_float64_Some [simp]: "(assert_float64 v = Some f) = (v = Some (Float64Ptr f))"
  by (cases v rule: assert_float64.cases) simp_all

lemma assert_ByteQuantity_Some [simp]:
  "(assert_ByteQuantity v = Some bq) = (v = Some (ByteQuantityPtr bq))"
  by (cases v rule: assert_ByteQuantity.cases) simp_all

lemma assert_string_Some [simp]: "(assert_string v = Some s) = (v = Some (StringPtr s))"
  by (cases v rule: assert_string.cases) simp_all

lemma range_Errorf_names_min: "sublist (''--'' @ minArg) (range_Errorf minArg maxArg)"
  unfolding range_Errorf_def sublist_def
  by (rule exI [of _ "''Invalid input for ''"], rule exI) simp

lemma range_Errorf_names_max: "sublist (''--'' @ maxArg) (range_Errorf minArg maxArg)"
  unfolding range_Errorf_def sublist_def
  by (rule exI [of _ "''Invalid input for --'' @ minArg @ '' and ''"], rule exI) simp

subsection \<open>The ordering validators\<close>

lemma IntMinMaxRange_validator_absent:
  "Flags cl (name @ ''-min'') = None \<or> Flags cl (name @ ''-max'') = None \<Longrightarrow>
   IntMinMaxRange_validator name cl val = (cl, ReturnsNil)"
  by (simp add: IntMinMaxRange_validator_def)

lemma IntMinMaxRange_validator_error:
  "(snd (IntMinMaxRange_validator name cl val) = ReturnsError e) =
   (e = range_Errorf (name @ ''-min'') (name @ ''-max'') \<and>
    (\<exists>a b. Flags cl (name @ ''-min'') = Some (IntPtr a) \<and>
           Flags cl (name @ ''-max'') = Some (IntPtr b) \<and> sint b < sint a))"
  by (cases "assert_int (Flags cl (name @ ''-min''))";
      cases "assert_int (Flags cl (name @ ''-max''))")
     (auto simp: IntMinMaxRange_validator_def Let_def)

lemma Int32MinMaxRange_validator_absent:
  "Flags cl (name @ ''-min'') = None \<or> Flags cl (name @ ''-max'') = None \<Longrightarrow>
   Int32MinMaxRange_validator name cl val = (cl, ReturnsNil)"
  by (simp add: Int32MinMaxRange_validator_def)

lemma Int32MinMaxRange_validator_error:
  "(snd (Int32MinMaxRange_validator name cl val) = ReturnsError e) =
   (e = range_Errorf (name @ ''-min'') (name @ ''-max'') \<and>
    (\<exists>a b. Flags cl (name @ ''-min'') = Some (Int32Ptr a) \<and>
           Flags cl (name @ ''-max'') = Some (Int32Ptr b) \<and> sint b < sint a))"
  by (cases "assert_int32 (Flags cl (name @ ''-min''))";
      cases "assert_int32 (Flags cl (name @ ''-max''))")
     (auto simp: Int32MinMaxRange_validator_def Let_def)

lemma Float64MinMaxRange_validator_absent:
  "Flags cl (name @ ''-min'') = None \<or> Flags cl (name @ ''-max'') = None \<Longrightarrow>
   Float64MinMaxRange_validator name cl val = (cl, ReturnsNil)"
  by (simp add: Float64MinMaxRange_validator_def)

lemma Float64MinMaxRange_validator_error:
  "(snd (Float64MinMaxRange_validator name cl val) = ReturnsError e) =
   (e = range_Errorf (name @ ''-min'') (name @ ''-max'') \<and>
    (\<exists>a b. Flags cl (name @ ''-min'') = Some (Float64Ptr a) \<and>
           Flags cl (name @ ''-max'') = Some (Float64Ptr b) \<and> f64_gt a b))"
  by (cases "assert_float64 (Flags cl (name @ ''-min''))";
      cases "assert_float64 (Flags cl (name @ ''-max''))")
     (auto simp: Float64MinMaxRange_validator_def Let_def)

lemma ByteQuantityMinMaxRange_validator_absent:
  "Flags cl (name @ ''-min'') = None \<or> Flags cl (name @ ''-max'') = None \<Longrightarrow>
   ByteQuantityMinMaxRange_validator name cl val = (cl, ReturnsNil)"
  by (simp add: ByteQuantityMinMaxRange_validator_def)

lemma ByteQuantityMinMaxRange_validator_error:
  "(snd (ByteQuantityMinMaxRange_validator name cl val) = ReturnsError e) =
   (e = range_Errorf (name @ ''-min'') (name @ ''-max'') \<and>
    (\<exists>a b. Flags cl (name @ ''-min'') = Some (ByteQuantityPtr a) \<and>
           Flags cl (name @ ''-max'') = Some (ByteQuantityPtr b) \<and> MiB b < MiB a))"
  by (cases "assert_ByteQuantity (Flags cl (name @ ''-min''))";
      cases "assert_ByteQuantity (Flags cl (name @ ''-max''))")
     (auto simp: ByteQuantityMinMaxRange_validator_def Let_def)

text \<open>
  C1. The ordering validator of each range triplet (int, int32, float64, byte quantity)
  returns an error exactly when the entries of \<open>name-min\<close> and \<open>name-max\<close> are both
  present and the minimum is greater than the maximum; the error is the message that
  names \<open>--name-min\<close> and \<open>--name-max\<close>; when either entry is nil the validator returns
  nil and leaves the registry as it is. (Two entries that are present but not of the
  triplet's type make the type assertion panic, which is neither an error nor nil.)
\<close>

theorem range_validator_error_iff_min_exceeds_max:
  "((\<exists>e. snd (IntMinMaxRange_validator name cl val) = ReturnsError e) \<longleftrightarrow>
      (\<exists>a b. Flags cl (name @ ''-min'') = Some (IntPtr a) \<and>
             Flags cl (name @ ''-max'') = Some (IntPtr b) \<and> sint b < sint a)) \<and>
   ((\<exists>e. snd (Int32MinMaxRange_validator name cl val) = ReturnsError e) \<longleftrightarrow>
      (\<exists>a b. Flags cl (name @ ''-min'') = Some (Int32Ptr a) \<and>
             Flags cl (name @ ''-max'') = Some (Int32Ptr b) \<and> sint b < sint a)) \<and>
   ((\<exists>e. snd (Float64MinMaxRange_validator name cl val) = ReturnsError e) \<longleftrightarrow>
      (\<exists>a b. Flags cl (name @ ''-min'') = Some (Float64Ptr a) \<and>
             Flags cl (name @ ''-max'') = Some (Float64Ptr b) \<and> f64_gt a b)) \<and>
   ((\<exists>e. snd (ByteQuantityMinMaxRange_validator name cl val) = ReturnsError e) \<longleftrightarrow>
      (\<exists>a b. Flags cl (name @ ''-min'') = Some (ByteQuantityPtr a) \<and>
             Flags cl (name @ ''-max'') = Some (ByteQuantityPtr b) \<and> MiB b < MiB a)) \<and>
   (\<forall>e. snd (IntMinMaxRange_validator name cl val) = ReturnsError e \<or>
        snd (Int32MinMaxRange_validator name cl val) = ReturnsError e \<or>
        snd (Float64MinMaxRange_validator name cl val) = ReturnsError e \<or>
        snd (ByteQuantityMinMaxRange_validator name cl val) = ReturnsError e \<longrightarrow>
        e = range_Errorf (name @ ''-min'') (name @ ''-max'') \<and>
        sublist (''--'' @ name @ ''-min'') e \<and> sublist (''--'' @ name @ ''-max'') e) \<and>
   (Flags cl (name @ ''-min'') = None \<or> Flags cl (name @ ''-max'') = None \<longrightarrow>
      IntMinMaxRange_validator name cl val = (cl, ReturnsNil) \<and>
      Int32MinMaxRange_validator name cl val = (cl, ReturnsNil) \<and>
      Float64MinMaxRange_validator name cl val = (cl, ReturnsNil) \<and>
      ByteQuantityMinMaxRange_validator name cl val = (cl, ReturnsNil))"
proof (intro conjI allI impI)
  show "(\<exists>e. snd (IntMinMaxRange_validator name cl val) = ReturnsError e) \<longleftrightarrow>
      (\<exists>a b. Flags cl (name @ ''-min'') = Some (IntPtr a) \<and>
             Flags cl (name @ ''-max'') = Some (IntPtr b) \<and> sint b < sint a)"
    by (simp add: IntMinMaxRange_validator_error)
  show "(\<exists>e. snd (Int32MinMaxRange_validator name cl val) = ReturnsError e) \<longleftrightarrow>
      (\<exists>a b. Flags cl (name @ ''-min'') = Some (Int32Ptr a) \<and>
             Flags cl (name @ ''-max'') = Some (Int32Ptr b) \<and> sint b < sint a)"
    by (simp add: Int32MinMaxRange_validator_error)
  show "(\<exists>e. snd (Float64MinMaxRange_validator name cl val) = ReturnsError e) \<longleftrightarrow>
      (\<exists>a b. Flags cl (name @ ''-min'') = Some (Float64Ptr a) \<and>
             Flags cl (name @ ''-max'') = Some (Float64Ptr b) \<and> f64_gt a b)"
    by (simp add: Float64MinMaxRange_validator_error)
  show "(\<exists>e. snd (ByteQuantityMinMaxRange_validator name cl val) = ReturnsError e) \<longleftrightarrow>
      (\<exists>a b. Flags cl (name @ ''-min'') = Some (ByteQuantityPtr a) \<and>
             Flags cl (name @ ''-max'') = Some (ByteQuantityPtr b) \<and> MiB b < MiB a)"
    by (simp add: ByteQuantityMinMaxRange_validator_error)
next
  fix e
  assume "snd (IntMinMaxRange_validator name cl val) = ReturnsError e \<or>
        snd (Int32MinMaxRange_validator name cl val) = ReturnsError e \<or>
        snd (Float64MinMaxRange_validator name cl val) = ReturnsError e \<or>
        snd (ByteQuantityMinMaxRange_validator name cl val) = ReturnsError e"
  then have e: "e = range_Errorf (name @ ''-min'') (name @ ''-max'')"
    by (auto simp: IntMinMaxRange_validator_error Int32MinMaxRange_validator_error
          Float64MinMaxRange_validator_error ByteQuantityMinMaxRange_validator_error)
  show "e = range_Errorf (name @ ''-min'') (name @ ''-max'')" by (rule e)
  show "sublist (''--'' @ name @ ''-min'') e"
    unfolding e by (rule range_Errorf_names_min)
  show "sublist (''--'' @ name @ ''-max'') e"
    unfolding e by (rule range_Errorf_names_max)
next
  assume absent: "Flags cl (name @ ''-min'') = None \<or> Flags cl (name @ ''-max'') = None"
  show "IntMinMaxRange_validator name cl val = (cl, ReturnsNil)"
    by (rule IntMinMaxRange_validator_absent [OF absent])
  show "Int32MinMaxRange_validator name cl val = (cl, ReturnsNil)"
    by (rule Int32MinMaxRange_validator_absent [OF absent])
  show "Float64MinMaxRange_validator name cl val = (cl, ReturnsNil)"
    by (rule Float64MinMaxRange_validator_absent [OF absent])
  show "ByteQuantityMinMaxRange_validator name cl val = (cl, ReturnsNil)"
    by (rule ByteQuantityMinMaxRange_validator_absent [OF absent])
qed

theorem range_validator_error_iff_min_exceeds_max_witness:
  "(\<exists>e. snd (IntMinMaxRange_validator ''vcpus''
            (no_flags\<lparr>Flags := [''vcpus-min'' \<mapsto> IntPtr 4, ''vcpus-max'' \<mapsto> IntPtr 2]\<rparr>)
            None) = ReturnsError e) \<and>
   Int32MinMaxRange_validator ''gpus''
     (no_flags\<lparr>Flags := [''vcpus-min'' \<mapsto> IntPtr 4, ''vcpus-max'' \<mapsto> IntPtr 2]\<rparr>) None =
   (no_flags\<lparr>Flags := [''vcpus-min'' \<mapsto> IntPtr 4, ''vcpus-max'' \<mapsto> IntPtr 2]\<rparr>, ReturnsNil)"
  using range_validator_error_iff_min_exceeds_max
          [of "''vcpus''" "no_flags\<lparr>Flags := [''vcpus-min'' \<mapsto> IntPtr 4, ''vcpus-max'' \<mapsto> IntPtr 2]\<rparr>" None]
        range_validator_error_iff_min_exceeds_max
          [of "''gpus''" "no_flags\<lparr>Flags := [''vcpus-min'' \<mapsto> IntPtr 4, ''vcpus-max'' \<mapsto> IntPtr 2]\<rparr>" None]
  by simp

text \<open>
  C6. The ordering validator of a byte-quantity triplet compares the two entries by
  their magnitude in mebibytes: it returns an error exactly when both entries are
  present as byte quantities and \<open>MiB\<close> of \<open>name-min\<close> exceeds \<open>MiB\<close> of \<open>name-max\<close>.
  It never compares raw strings: an entry that is still a string fails the type
  assertion.
\<close>

theorem byteQuantity_range_validator_compares_MiB:
  "((\<exists>e. snd (ByteQuantityMinMaxRange_validator name cl val) = ReturnsError e) \<longleftrightarrow>
      (\<exists>minBq maxBq.
          Flags cl (name @ ''-min'') = Some (ByteQuantityPtr minBq) \<and>
          Flags cl (name @ ''-max'') = Some (ByteQuantityPtr maxBq) \<and>
          MiB maxBq < MiB minBq)) \<and>
   (\<forall>minBq maxBq.
       Flags cl (name @ ''-min'') = Some (ByteQuantityPtr minBq) \<and>
       Flags cl (name @ ''-max'') = Some (ByteQuantityPtr maxBq) \<and>
       MiB minBq \<le> MiB maxBq \<longrightarrow>
       ByteQuantityMinMaxRange_validator name cl val = (cl, ReturnsNil)) \<and>
   (\<forall>s v. Flags cl (name @ ''-min'') = Some (StringPtr s) \<and>
          Flags cl (name @ ''-max'') = Some v \<longrightarrow>
          ByteQuantityMinMaxRange_validator name cl val = (cl, Panics))"
proof (intro conjI allI impI)
  show "(\<exists>e. snd (ByteQuantityMinMaxRange_validator name cl val) = ReturnsError e) \<longleftrightarrow>
      (\<exists>minBq maxBq.
          Flags cl (name @ ''-min'') = Some (ByteQuantityPtr minBq) \<and>
          Flags cl (name @ ''-max'') = Some (ByteQuantityPtr maxBq) \<and>
          MiB maxBq < MiB minBq)"
    by (simp add: ByteQuantityMinMaxRange_validator_error)
next
  fix minBq maxBq
  assume "Flags cl (name @ ''-min'') = Some (ByteQuantityPtr minBq) \<and>
       Flags cl (name @ ''-max'') = Some (ByteQuantityPtr maxBq) \<and>
       MiB minBq \<le> MiB maxBq"
  then show "ByteQuantityMinMaxRange_validator name cl val = (cl, ReturnsNil)"
    by (simp add: ByteQuantityMinMaxRange_validator_def)
next
  fix s v
  assume "Flags cl (name @ ''-min'') = Some (StringPtr s) \<and>
          Flags cl (name @ ''-max'') = Some v"
  then show "ByteQuantityMinMaxRange_validator name cl val = (cl, Panics)"
    by (simp add: ByteQuantityMinMaxRange_validator_def)
qed

theorem byteQuantity_range_validator_compares_MiB_witness:
  "(\<exists>e. snd (ByteQuantityMinMaxRange_validator ''memory''
            (no_flags\<lparr>Flags := [''memory-min'' \<mapsto> ByteQuantityPtr (ByteQuantity 16384),
                                ''memory-max'' \<mapsto> ByteQuantityPtr (ByteQuantity 512)]\<rparr>)
            None) = ReturnsError e) \<and>
   ByteQuantityMinMaxRange_validator ''memory''
     (no_flags\<lparr>Flags := [''memory-min'' \<mapsto> ByteQuantityPtr (ByteQuantity 512),
                         ''memory-max'' \<mapsto> ByteQuantityPtr (ByteQuantity 16384)]\<rparr>) None =
   (no_flags\<lparr>Flags := [''memory-min'' \<mapsto> ByteQuantityPtr (ByteQuantity 512),
                        ''memory-max'' \<mapsto> ByteQuantityPtr (ByteQuantity 16384)]\<rparr>, ReturnsNil) \<and>
   ByteQuantityMinMaxRange_validator ''memory''
     (no_flags\<lparr>Flags := [''memory-min'' \<mapsto> StringPtr ''512mb'',
                         ''memory-max'' \<mapsto> StringPtr ''16gb'']\<rparr>) None =
   (no_flags\<lparr>Flags := [''memory-min'' \<mapsto> StringPtr ''512mb'',
                        ''memory-max'' \<mapsto> StringPtr ''16gb'']\<rparr>, Panics)"
  using byteQuantity_range_validator_compares_MiB
          [of "''memory''"
              "no_flags\<lparr>Flags := [''memory-min'' \<mapsto> ByteQuantityPtr (ByteQuantity 16384),
                                  ''memory-max'' \<mapsto> ByteQuantityPtr (ByteQuantity 512)]\<rparr>" None]
        byteQuantity_range_validator_compares_MiB
          [of "''memory''"
              "no_flags\<lparr>Flags := [''memory-min'' \<mapsto> ByteQuantityPtr (ByteQuantity 512),
                                  ''memory-max'' \<mapsto> ByteQuantityPtr (ByteQuantity 16384)]\<rparr>" None]
        byteQuantity_range_validator_compares_MiB
          [of "''memory''"
              "no_flags\<lparr>Flags := [''memory-min'' \<mapsto> StringPtr ''512mb'',
                                  ''memory-max'' \<mapsto> StringPtr ''16gb'']\<rparr>" None]
  by simp

subsection \<open>Registration\<close>

lemma BoolFlagOnFlagSet_fields:
  "Flags (BoolFlagOnFlagSet cl flagSet name shorthand defaultValue) =
     (Flags cl)(name \<mapsto> BoolPtr (case defaultValue of None \<Rightarrow> False | Some x \<Rightarrow> x))"
  "nilDefaults (BoolFlagOnFlagSet cl flagSet name shorthand defaultValue) =
     (if defaultValue = None then (nilDefaults cl)(name := True) else nilDefaults cl)"
  by (simp_all add: BoolFlagOnFlagSet_def Let_def)

lemma IntFlagOnFlagSet_fields:
  "Flags (IntFlagOnFlagSet cl flagSet name shorthand defaultValue) =
     (Flags cl)(name \<mapsto> IntPtr (case defaultValue of None \<Rightarrow> 0 | Some x \<Rightarrow> x))"
  "nilDefaults (IntFlagOnFlagSet cl flagSet name shorthand defaultValue) =
     (if defaultValue = None then (nilDefaults cl)(name := True) else nilDefaults cl)"
  "rangeFlags (IntFlagOnFlagSet cl flagSet name shorthand defaultValue) = rangeFlags cl"
  "processors (IntFlagOnFlagSet cl flagSet name shorthand defaultValue) = processors cl"
  "validators (IntFlagOnFlagSet cl flagSet name shorthand defaultValue) = validators cl"
  by (simp_all add: IntFlagOnFlagSet_def Let_def)

lemma Int32FlagOnFlagSet_fields:
  "Flags (Int32FlagOnFlagSet cl flagSet name shorthand defaultValue) =
     (Flags cl)(name \<mapsto> Int32Ptr (case defaultValue of None \<Rightarrow> 0 | Some x \<Rightarrow> x))"
  "nilDefaults (Int32FlagOnFlagSet cl flagSet name shorthand defaultValue) =
     (if defaultValue = None then (nilDefaults cl)(name := True) else nilDefaults cl)"
  "rangeFlags (Int32FlagOnFlagSet cl flagSet name shorthand defaultValue) = rangeFlags cl"
  "processors (Int32FlagOnFlagSet cl flagSet name shorthand defaultValue) = processors cl"
  "validators (Int32FlagOnFlagSet cl flagSet name shorthand defaultValue) = validators cl"
  by (simp_all add: Int32FlagOnFlagSet_def Let_def)

lemma Float64FlagOnFlagSet_fields:
  "Flags (Float64FlagOnFlagSet cl flagSet name shorthand defaultValue) =
     (Flags cl)(name \<mapsto> Float64Ptr (case defaultValue of None \<Rightarrow> FNum 0 | Some x \<Rightarrow> x))"
  "nilDefaults (Float64FlagOnFlagSet cl flagSet name shorthand defaultValue) =
     (if defaultValue = None then (nilDefaults cl)(name := True) else nilDefaults cl)"
  "rangeFlags (Float64FlagOnFlagSet cl flagSet name shorthand defaultValue) = rangeFlags cl"
  "processors (Float64FlagOnFlagSet cl flagSet name shorthand defaultValue) = processors cl"
  "validators (Float64FlagOnFlagSet cl flagSet name shorthand defaultValue) = validators cl"
  by (simp_all add: Float64FlagOnFlagSet_def Let_def)

lemma StringFlagOnFlagSet_fields:
  "Flags (StringFlagOnFlagSet cl flagSet name shorthand defaultValue processorFn validationFn) =
     (Flags cl)(name \<mapsto> StringPtr (case defaultValue of None \<Rightarrow> [] | Some x \<Rightarrow> x))"
  "nilDefaults (StringFlagOnFlagSet cl flagSet name shorthand defaultValue processorFn validationFn) =
     (if defaultValue = None then (nilDefaults cl)(name := True) else nilDefaults cl)"
  "rangeFlags (StringFlagOnFlagSet cl flagSet name shorthand defaultValue processorFn validationFn) =
     rangeFlags cl"
  "processors (StringFlagOnFlagSet cl flagSet name shorthand defaultValue processorFn validationFn) =
     (processors cl)(name := processorFn)"
  "validators (StringFlagOnFlagSet cl flagSet name shorthand defaultValue processorFn validationFn) =
     (validators cl)(name := validationFn)"
  by (simp_all add: StringFlagOnFlagSet_def Let_def)

lemma StringSliceFlagOnFlagSet_fields:
  "Flags (StringSliceFlagOnFlagSet cl flagSet name shorthand defaultValue) =
     (Flags cl)(name \<mapsto> StringSlicePtr (case defaultValue of None \<Rightarrow> [] | Some x \<Rightarrow> x))"
  "nilDefaults (StringSliceFlagOnFlagSet cl flagSet name shorthand defaultValue) =
     (if defaultValue = None then (nilDefaults cl)(name := True) else nilDefaults cl)"
  by (simp_all add: StringSliceFlagOnFlagSet_def Let_def)

lemma RatioFlag_fields:
  "Flags (RatioFlag cl name shorthand defaultValue) =
     (Flags cl)(name \<mapsto> StringPtr (case defaultValue of None \<Rightarrow> [] | Some x \<Rightarrow> x))"
  "nilDefaults (RatioFlag cl name shorthand defaultValue) =
     (if defaultValue = None then (nilDefaults cl)(name := True) else nilDefaults cl)"
  by (simp_all add: RatioFlag_def Let_def)

lemma ByteQuantityFlagOnFlagSet_fields:
  "Flags (ByteQuantityFlagOnFlagSet lib cl flagSet name shorthand defaultValue) =
     (Flags cl)(name \<mapsto>
        StringPtr (case defaultValue of None \<Rightarrow> [] | Some bq \<Rightarrow> StringGiB lib bq))"
  "nilDefaults (ByteQuantityFlagOnFlagSet lib cl flagSet name shorthand defaultValue) =
     (if defaultValue = None then (nilDefaults cl)(name := True) else nilDefaults cl)"
  "rangeFlags (ByteQuantityFlagOnFlagSet lib cl flagSet name shorthand defaultValue) =
     rangeFlags cl"
  "processors (ByteQuantityFlagOnFlagSet lib cl flagSet name shorthand defaultValue) =
     (processors cl)(name \<mapsto> ByteQuantityProcessor name)"
  "validators (ByteQuantityFlagOnFlagSet lib cl flagSet name shorthand defaultValue) =
     (validators cl)(name \<mapsto> ByteQuantityValidator name)"
  by (cases defaultValue;
      simp add: ByteQuantityFlagOnFlagSet_def StringFlagOnFlagSet_fields)+

lemma IntMinMaxRangeFlagOnFlagSet_fields:
  "Flags (IntMinMaxRangeFlagOnFlagSet cl flagSet name shorthand defaultValue) =
     (Flags cl)(name \<mapsto> IntPtr (case defaultValue of None \<Rightarrow> 0 | Some x \<Rightarrow> x),
                name @ ''-min'' \<mapsto> IntPtr 0, name @ ''-max'' \<mapsto> IntPtr 0)"
  "nilDefaults (IntMinMaxRangeFlagOnFlagSet cl flagSet name shorthand defaultValue) =
     (if defaultValue = None then (nilDefaults cl)(name := True) else nilDefaults cl)
       (name @ ''-min'' := True, name @ ''-max'' := True)"
  "rangeFlags (IntMinMaxRangeFlagOnFlagSet cl flagSet name shorthand defaultValue) =
     (rangeFlags cl)(name := True)"
  "validators (IntMinMaxRangeFlagOnFlagSet cl flagSet name shorthand defaultValue) =
     (validators cl)(name \<mapsto> IntRangeValidator name)"
  by (simp_all add: IntMinMaxRangeFlagOnFlagSet_def Let_def IntFlagOnFlagSet_fields)

lemma Int32MinMaxRangeFlagOnFlagSet_fields:
  "Flags (Int32MinMaxRangeFlagOnFlagSet cl flagSet name shorthand defaultValue) =
     (Flags cl)(name \<mapsto> Int32Ptr (case defaultValue of None \<Rightarrow> 0 | Some x \<Rightarrow> x),
                name @ ''-min'' \<mapsto> Int32Ptr 0, name @ ''-max'' \<mapsto> Int32Ptr 0)"
  "nilDefaults (Int32MinMaxRangeFlagOnFlagSet cl flagSet name shorthand defaultValue) =
     (if defaultValue = None then (nilDefaults cl)(name := True) else nilDefaults cl)
       (name @ ''-min'' := True, name @ ''-max'' := True)"
  "rangeFlags (Int32MinMaxRangeFlagOnFlagSet cl flagSet name shorthand defaultValue) =
     (rangeFlags cl)(name := True)"
  "validators (Int32MinMaxRangeFlagOnFlagSet cl flagSet name shorthand defaultValue) =
     (validators cl)(name \<mapsto> Int32RangeValidator name)"
  by (simp_all add: Int32MinMaxRangeFlagOnFlagSet_def Let_def Int32FlagOnFlagSet_fields)

lemma Float64MinMaxRangeFlagOnFlagSet_fields:
  "Flags (Float64MinMaxRangeFlagOnFlagSet cl flagSet name shorthand defaultValue) =
     (Flags cl)(name \<mapsto> Float64Ptr (case defaultValue of None \<Rightarrow> FNum 0 | Some x \<Rightarrow> x),
                name @ ''-min'' \<mapsto> Float64Ptr (FNum 0), name @ ''-max'' \<mapsto> Float64Ptr (FNum 0))"
  "nilDefaults (Float64MinMaxRangeFlagOnFlagSet cl flagSet name shorthand defaultValue) =
     (if defaultValue = None then (nilDefaults cl)(name := True) else nilDefaults cl)
       (name @ ''-min'' := True, name @ ''-max'' := True)"
  "rangeFlags (Float64MinMaxRangeFlagOnFlagSet cl flagSet name shorthand defaultValue) =
     (rangeFlags cl)(name := True)"
  "validators (Float64MinMaxRangeFlagOnFlagSet cl flagSet name shorthand defaultValue) =
     (validators cl)(name \<mapsto> Float64RangeValidator name)"
  by (simp_all add: Float64MinMaxRangeFlagOnFlagSet_def Let_def Float64FlagOnFlagSet_fields)

lemma ByteQuantityMinMaxRangeFlagOnFlagSet_fields:
  "Flags (ByteQuantityMinMaxRangeFlagOnFlagSet lib cl flagSet name shorthand defaultValue) =
     (Flags cl)(name \<mapsto>
                  StringPtr (case defaultValue of None \<Rightarrow> [] | Some bq \<Rightarrow> StringGiB lib bq),
                name @ ''-min'' \<mapsto> StringPtr [], name @ ''-max'' \<mapsto> StringPtr [])"
  "nilDefaults (ByteQuantityMinMaxRangeFlagOnFlagSet lib cl flagSet name shorthand defaultValue) =
     (if defaultValue = None then (nilDefaults cl)(name := True) else nilDefaults cl)
       (name @ ''-min'' := True, name @ ''-max'' := True)"
  "rangeFlags (ByteQuantityMinMaxRangeFlagOnFlagSet lib cl flagSet name shorthand defaultValue) =
     (rangeFlags cl)(name := True)"
  "validators (ByteQuantityMinMaxRangeFlagOnFlagSet lib cl flagSet name shorthand defaultValue) =
     (validators cl)(name \<mapsto> ByteQuantityValidator name,
                     name @ ''-min'' \<mapsto> ByteQuantityValidator (name @ ''-min''),
                     name @ ''-max'' \<mapsto> ByteQuantityValidator (name @ ''-max''),
                     name \<mapsto> ByteQuantityRangeValidator name)"
  by (simp_all add: ByteQuantityMinMaxRangeFlagOnFlagSet_def Let_def
        ByteQuantityFlagOnFlagSet_fields)

text \<open>
  C9. Each range builder (int, int32, float64, byte quantity) registers \<open>name-min\<close> and
  \<open>name-max\<close> with a nil default, whatever default the base flag \<open>name\<close> is given: both
  names are recorded in \<open>nilDefaults\<close> and both entries hold the zero value of the
  registered kind. \<open>rangeFlags\<close> gains the base name and nothing else, and the ordering
  validator is stored under the base name only: every other entry of \<open>validators\<close> is
  what it was before (for a byte quantity, \<open>name-min\<close> and \<open>name-max\<close> carry the
  validator of the plain byte-quantity flag).
\<close>

theorem range_builder_registers_min_max_with_nil_default:
  "(let cl' = IntMinMaxRangeFlagOnFlagSet cl flagSet name shorthand intDefault in
      nilDefaults cl' (name @ ''-min'') \<and> nilDefaults cl' (name @ ''-max'') \<and>
      Flags cl' (name @ ''-min'') = Some (IntPtr 0) \<and>
      Flags cl' (name @ ''-max'') = Some (IntPtr 0) \<and>
      rangeFlags cl' name \<and> (\<forall>k. k \<noteq> name \<longrightarrow> rangeFlags cl' k = rangeFlags cl k) \<and>
      validators cl' name = Some (IntRangeValidator name) \<and>
      (\<forall>k. k \<noteq> name \<longrightarrow> validators cl' k = validators cl k)) \<and>
   (let cl' = Int32MinMaxRangeFlagOnFlagSet cl flagSet name shorthand int32Default in
      nilDefaults cl' (name @ ''-min'') \<and> nilDefaults cl' (name @ ''-max'') \<and>
      Flags cl' (name @ ''-min'') = Some (Int32Ptr 0) \<and>
      Flags cl' (name @ ''-max'') = Some (Int32Ptr 0) \<and>
      rangeFlags cl' name \<and> (\<forall>k. k \<noteq> name \<longrightarrow> rangeFlags cl' k = rangeFlags cl k) \<and>
      validators cl' name = Some (Int32RangeValidator name) \<and>
      (\<forall>k. k \<noteq> name \<longrightarrow> validators cl' k = validators cl k)) \<and>
   (let cl' = Float64MinMaxRangeFlagOnFlagSet cl flagSet name shorthand float64Default in
      nilDefaults cl' (name @ ''-min'') \<and> nilDefaults cl' (name @ ''-max'') \<and>
      Flags cl' (name @ ''-min'') = Some (Float64Ptr (FNum 0)) \<and>
      Flags cl' (name @ ''-max'') = Some (Float64Ptr (FNum 0)) \<and>
      rangeFlags cl' name \<and> (\<forall>k. k \<noteq> name \<longrightarrow> rangeFlags cl' k = rangeFlags cl k) \<and>
      validators cl' name = Some (Float64RangeValidator name) \<and>
      (\<forall>k. k \<noteq> name \<longrightarrow> validators cl' k = validators cl k)) \<and>
   (let cl' = ByteQuantityMinMaxRangeFlagOnFlagSet lib cl flagSet name shorthand bqDefault in
      nilDefaults cl' (name @ ''-min'') \<and> nilDefaults cl' (name @ ''-max'') \<and>
      Flags cl' (name @ ''-min'') = Some (StringPtr []) \<and>
      Flags cl' (name @ ''-max'') = Some (StringPtr []) \<and>
      rangeFlags cl' name \<and> (\<forall>k. k \<noteq> name \<longrightarrow> rangeFlags cl' k = rangeFlags cl k) \<and>
      validators cl' name = Some (ByteQuantityRangeValidator name) \<and>
      validators cl' (name @ ''-min'') = Some (ByteQuantityValidator (name @ ''-min'')) \<and>
      validators cl' (name @ ''-max'') = Some (ByteQuantityValidator (name @ ''-max'')) \<and>
      (\<forall>k. k \<noteq> name \<and> k \<noteq> name @ ''-min'' \<and> k \<noteq> name @ ''-max'' \<longrightarrow>
           validators cl' k = validators cl k))"
proof (intro conjI)
  show "let cl' = IntMinMaxRangeFlagOnFlagSet cl flagSet name shorthand intDefault in
      nilDefaults cl' (name @ ''-min'') \<and> nilDefaults cl' (name @ ''-max'') \<and>
      Flags cl' (name @ ''-min'') = Some (IntPtr 0) \<and>
      Flags cl' (name @ ''-max'') = Some (IntPtr 0) \<and>
      rangeFlags cl' name \<and> (\<forall>k. k \<noteq> name \<longrightarrow> rangeFlags cl' k = rangeFlags cl k) \<and>
      validators cl' name = Some (IntRangeValidator name) \<and>
      (\<forall>k. k \<noteq> name \<longrightarrow> validators cl' k = validators cl k)"
    by (simp add: Let_def IntMinMaxRangeFlagOnFlagSet_fields)
  show "let cl' = Int32MinMaxRangeFlagOnFlagSet cl flagSet name shorthand int32Default in
      nilDefaults cl' (name @ ''-min'') \<and> nilDefaults cl' (name @ ''-max'') \<and>
      Flags cl' (name @ ''-min'') = Some (Int32Ptr 0) \<and>
      Flags cl' (name @ ''-max'') = Some (Int32Ptr 0) \<and>
      rangeFlags cl' name \<and> (\<forall>k. k \<noteq> name \<longrightarrow> rangeFlags cl' k = rangeFlags cl k) \<and>
      validators cl' name = Some (Int32RangeValidator name) \<and>
      (\<forall>k. k \<noteq> name \<longrightarrow> validators cl' k = validators cl k)"
    by (simp add: Let_def Int32MinMaxRangeFlagOnFlagSet_fields)
  show "let cl' = Float64MinMaxRangeFlagOnFlagSet cl flagSet name shorthand float64Default in
      nilDefaults cl' (name @ ''-min'') \<and> nilDefaults cl' (name @ ''-max'') \<and>
      Flags cl' (name @ ''-min'') = Some (Float64Ptr (FNum 0)) \<and>
      Flags cl' (name @ ''-max'') = Some (Float64Ptr (FNum 0)) \<and>
      rangeFlags cl' name \<and> (\<forall>k. k \<noteq> name \<longrightarrow> rangeFlags cl' k = rangeFlags cl k) \<and>
      validators cl' name = Some (Float64RangeValidator name) \<and>
      (\<forall>k. k \<noteq> name \<longrightarrow> validators cl' k = validators cl k)"
    by (simp add: Let_def Float64MinMaxRangeFlagOnFlagSet_fields)
  show "let cl' = ByteQuantityMinMaxRangeFlagOnFlagSet lib cl flagSet name shorthand bqDefault in
      nilDefaults cl' (name @ ''-min'') \<and> nilDefaults cl' (name @ ''-max'') \<and>
      Flags cl' (name @ ''-min'') = Some (StringPtr []) \<and>
      Flags cl' (name @ ''-max'') = Some (StringPtr []) \<and>
      rangeFlags cl' name \<and> (\<forall>k. k \<noteq> name \<longrightarrow> rangeFlags cl' k = rangeFlags cl k) \<and>
      validators cl' name = Some (ByteQuantityRangeValidator name) \<and>
      validators cl' (name @ ''-min'') = Some (ByteQuantityValidator (name @ ''-min'')) \<and>
      validators cl' (name @ ''-max'') = Some (ByteQuantityValidator (name @ ''-max'')) \<and>
      (\<forall>k. k \<noteq> name \<and> k \<noteq> name @ ''-min'' \<and> k \<noteq> name @ ''-max'' \<longrightarrow>
           validators cl' k = validators cl k)"
    by (simp add: Let_def ByteQuantityMinMaxRangeFlagOnFlagSet_fields)
qed

theorem range_builder_registers_min_max_with_nil_default_witness:
  "(let cl' = IntMinMaxRangeFlagOnFlagSet no_flags Command_Flags ''vcpus'' None (Some 4) in
      nilDefaults cl' ''vcpus-min'' \<and> nilDefaults cl' ''vcpus-max'' \<and>
      \<not> nilDefaults cl' ''vcpus'' \<and>
      Flags cl' ''vcpus'' = Some (IntPtr 4) \<and>
      Flags cl' ''vcpus-min'' = Some (IntPtr 0) \<and>
      Flags cl' ''vcpus-max'' = Some (IntPtr 0) \<and>
      rangeFlags cl' ''vcpus'' \<and> \<not> rangeFlags cl' ''vcpus-min'' \<and>
      \<not> rangeFlags cl' ''vcpus-max'' \<and>
      validators cl' ''vcpus'' = Some (IntRangeValidator ''vcpus'') \<and>
      validators cl' ''vcpus-min'' = None \<and> validators cl' ''vcpus-max'' = None)"
  using range_builder_registers_min_max_with_nil_default
          [of no_flags Command_Flags "''vcpus''" None "Some 4"]
  by (simp add: Let_def IntMinMaxRangeFlagOnFlagSet_fields no_flags_def)

lemma StringOptionsFlagOnFlagSet_fields:
  "Flags (StringOptionsFlagOnFlagSet cl flagSet name shorthand defaultValue validOpts) =
     (Flags cl)(name \<mapsto> StringPtr (case defaultValue of None \<Rightarrow> [] | Some x \<Rightarrow> x))"
  "nilDefaults (StringOptionsFlagOnFlagSet cl flagSet name shorthand defaultValue validOpts) =
     (if defaultValue = None then (nilDefaults cl)(name := True) else nilDefaults cl)"
  by (simp_all add: StringOptionsFlagOnFlagSet_def StringFlagOnFlagSet_fields)

lemma RegexFlagOnFlagSet_fields:
  "Flags (RegexFlagOnFlagSet cl flagSet name shorthand defaultValue) =
     (Flags cl)(name \<mapsto> StringPtr (case defaultValue of None \<Rightarrow> [] | Some x \<Rightarrow> x))"
  "nilDefaults (RegexFlagOnFlagSet cl flagSet name shorthand defaultValue) =
     (if defaultValue = None then (nilDefaults cl)(name := True) else nilDefaults cl)"
  by (simp_all add: RegexFlagOnFlagSet_def StringFlagOnFlagSet_fields)

lemma PathFlagOnFlagSet_fields:
  "Flags (PathFlagOnFlagSet cl flagSet name shorthand defaultValue) =
     (Flags cl)(name \<mapsto> StringPtr (case defaultValue of None \<Rightarrow> [] | Some x \<Rightarrow> x))"
  "nilDefaults (PathFlagOnFlagSet cl flagSet name shorthand defaultValue) =
     (if defaultValue = None then (nilDefaults cl)(name := True) else nilDefaults cl)"
  by (simp_all add: PathFlagOnFlagSet_def StringFlagOnFlagSet_fields)

text \<open>
  C4. Every typed builder (bool, int, int32, float64, string, string slice, ratio, byte
  quantity, regex, path, string options) called with a nil default records the flag's
  name in \<open>nilDefaults\<close> and registers the zero value of the flag's kind (for the
  builders on top of the string flag, the empty string); called with an explicit
  default \<open>d\<close> it registers \<open>d\<close> and leaves \<open>nilDefaults\<close> as it was. So a name that
  was not in the table before is in it after a registration without a default and not
  in it after a registration with the zero value as default, although both register the
  same value.
\<close>

theorem builders_record_nil_default:
  "(nilDefaults (BoolFlagOnFlagSet cl flagSet name shorthand None) name \<and>
    Flags (BoolFlagOnFlagSet cl flagSet name shorthand None) name = Some (BoolPtr False) \<and>
    nilDefaults (BoolFlagOnFlagSet cl flagSet name shorthand (Some b)) = nilDefaults cl \<and>
    Flags (BoolFlagOnFlagSet cl flagSet name shorthand (Some b)) name = Some (BoolPtr b)) \<and>
   (nilDefaults (IntFlagOnFlagSet cl flagSet name shorthand None) name \<and>
    Flags (IntFlagOnFlagSet cl flagSet name shorthand None) name = Some (IntPtr 0) \<and>
    nilDefaults (IntFlagOnFlagSet cl flagSet name shorthand (Some i)) = nilDefaults cl \<and>
    Flags (IntFlagOnFlagSet cl flagSet name shorthand (Some i)) name = Some (IntPtr i)) \<and>
   (nilDefaults (Int32FlagOnFlagSet cl flagSet name shorthand None) name \<and>
    Flags (Int32FlagOnFlagSet cl flagSet name shorthand None) name = Some (Int32Ptr 0) \<and>
    nilDefaults (Int32FlagOnFlagSet cl flagSet name shorthand (Some j)) = nilDefaults cl \<and>
    Flags (Int32FlagOnFlagSet cl flagSet name shorthand (Some j)) name = Some (Int32Ptr j)) \<and>
   (nilDefaults (Float64FlagOnFlagSet cl flagSet name shorthand None) name \<and>
    Flags (Float64FlagOnFlagSet cl flagSet name shorthand None) name =
      Some (Float64Ptr (FNum 0)) \<and>
    nilDefaults (Float64FlagOnFlagSet cl flagSet name shorthand (Some f)) = nilDefaults cl \<and>
    Flags (Float64FlagOnFlagSet cl flagSet name shorthand (Some f)) name =
      Some (Float64Ptr f)) \<and>
   (nilDefaults (StringFlagOnFlagSet cl flagSet name shorthand None processorFn validationFn)
      name \<and>
    Flags (StringFlagOnFlagSet cl flagSet name shorthand None processorFn validationFn) name =
      Some (StringPtr []) \<and>
    nilDefaults (StringFlagOnFlagSet cl flagSet name shorthand (Some s) processorFn validationFn) =
      nilDefaults cl \<and>
    Flags (StringFlagOnFlagSet cl flagSet name shorthand (Some s) processorFn validationFn) name =
      Some (StringPtr s)) \<and>
   (nilDefaults (StringSliceFlagOnFlagSet cl flagSet name shorthand None) name \<and>
    Flags (StringSliceFlagOnFlagSet cl flagSet name shorthand None) name =
      Some (StringSlicePtr []) \<and>
    nilDefaults (StringSliceFlagOnFlagSet cl flagSet name shorthand (Some ss)) = nilDefaults cl \<and>
    Flags (StringSliceFlagOnFlagSet cl flagSet name shorthand (Some ss)) name =
      Some (StringSlicePtr ss)) \<and>
   (nilDefaults (RatioFlag cl name shorthand None) name \<and>
    Flags (RatioFlag cl name shorthand None) name = Some (StringPtr []) \<and>
    nilDefaults (RatioFlag cl name shorthand (Some s)) = nilDefaults cl \<and>
    Flags (RatioFlag cl name shorthand (Some s)) name = Some (StringPtr s)) \<and>
   (nilDefaults (ByteQuantityFlagOnFlagSet lib cl flagSet name shorthand None) name \<and>
    Flags (ByteQuantityFlagOnFlagSet lib cl flagSet name shorthand None) name =
      Some (StringPtr []) \<and>
    nilDefaults (ByteQuantityFlagOnFlagSet lib cl flagSet name shorthand (Some bq)) =
      nilDefaults cl \<and>
    Flags (ByteQuantityFlagOnFlagSet lib cl flagSet name shorthand (Some bq)) name =
      Some (StringPtr (StringGiB lib bq))) \<and>
   (nilDefaults (RegexFlagOnFlagSet cl flagSet name shorthand None) name \<and>
    Flags (RegexFlagOnFlagSet cl flagSet name shorthand None) name = Some (StringPtr []) \<and>
    nilDefaults (RegexFlagOnFlagSet cl flagSet name shorthand (Some s)) = nilDefaults cl \<and>
    Flags (RegexFlagOnFlagSet cl flagSet name shorthand (Some s)) name = Some (StringPtr s)) \<and>
   (nilDefaults (PathFlagOnFlagSet cl flagSet name shorthand None) name \<and>
    Flags (PathFlagOnFlagSet cl flagSet name shorthand None) name = Some (StringPtr []) \<and>
    nilDefaults (PathFlagOnFlagSet cl flagSet name shorthand (Some s)) = nilDefaults cl \<and>
    Flags (PathFlagOnFlagSet cl flagSet name shorthand (Some s)) name = Some (StringPtr s)) \<and>
   (nilDefaults (StringOptionsFlagOnFlagSet cl flagSet name shorthand None validOpts) name \<and>
    Flags (StringOptionsFlagOnFlagSet cl flagSet name shorthand None validOpts) name =
      Some (StringPtr []) \<and>
    nilDefaults (StringOptionsFlagOnFlagSet cl flagSet name shorthand (Some s) validOpts) =
      nilDefaults cl \<and>
    Flags (StringOptionsFlagOnFlagSet cl flagSet name shorthand (Some s) validOpts) name =
      Some (StringPtr s))"
proof (intro conjI)
qed (simp_all add: BoolFlagOnFlagSet_fields IntFlagOnFlagSet_fields Int32FlagOnFlagSet_fields
      Float64FlagOnFlagSet_fields StringFlagOnFlagSet_fields StringSliceFlagOnFlagSet_fields
      RatioFlag_fields ByteQuantityFlagOnFlagSet_fields RegexFlagOnFlagSet_fields
      PathFlagOnFlagSet_fields StringOptionsFlagOnFlagSet_fields)

theorem builders_record_nil_default_witness:
  "nilDefaults (IntFlagOnFlagSet no_flags Command_Flags ''max-results'' None None)
     ''max-results'' \<and>
   \<not> nilDefaults (IntFlagOnFlagSet no_flags Command_Flags ''max-results'' None (Some 0))
       ''max-results'' \<and>
   Flags (IntFlagOnFlagSet no_flags Command_Flags ''max-results'' None None) ''max-results'' =
   Flags (IntFlagOnFlagSet no_flags Command_Flags ''max-results'' None (Some 0)) ''max-results'' \<and>
   nilDefaults (StringFlagOnFlagSet no_flags Command_PersistentFlags ''profile'' None None
                  None None) ''profile'' \<and>
   \<not> nilDefaults (StringFlagOnFlagSet no_flags Command_PersistentFlags ''profile'' None
                    (Some []) None None) ''profile'' \<and>
   Flags (StringFlagOnFlagSet no_flags Command_PersistentFlags ''profile'' None None
            None None) ''profile'' =
   Flags (StringFlagOnFlagSet no_flags Command_PersistentFlags ''profile'' None (Some [])
            None None) ''profile''"
  using builders_record_nil_default
          [of no_flags Command_Flags "''max-results''" None _ 0]
        builders_record_nil_default
          [of no_flags Command_PersistentFlags "''profile''" None _ _ _ _ None None "[]"]
  by (simp add: no_flags_def)

subsection \<open>The ratio grammar\<close>

lemma is_digit_not_colon: "is_digit c \<Longrightarrow> c \<noteq> CHR '':''"
  by (auto simp: is_digit_def)

lemma Split_no_sep: "sep \<notin> set s \<Longrightarrow> Split s sep = [s]"
  by (induction s) auto

lemma Split_at_first_sep: "sep \<notin> set a \<Longrightarrow> Split (a @ sep # b) sep = a # Split b sep"
  by (induction a) auto

lemma digits_no_colon: "list_all is_digit b \<Longrightarrow> CHR '':'' \<notin> set b"
  by (auto simp: list_all_iff dest: is_digit_not_colon)

lemma MatchString_ratio_Split:
  assumes "MatchString_ratio s"
  shows "Split s CHR '':'' = [takeWhile is_digit s, tl (dropWhile is_digit s)]"
proof -
  obtain c b where r: "dropWhile is_digit s = c # b"
    using assms by (auto simp: MatchString_ratio_def Let_def split: list.splits)
  with assms have c: "c = CHR '':''" and b: "list_all is_digit b"
    by (auto simp: MatchString_ratio_def Let_def)
  have s: "s = takeWhile is_digit s @ CHR '':'' # b"
    using takeWhile_dropWhile_id [of is_digit s] r c by simp
  have "CHR '':'' \<notin> set (takeWhile is_digit s)"
    by (auto dest: set_takeWhileD is_digit_not_colon)
  then have "Split (takeWhile is_digit s @ CHR '':'' # b) CHR '':'' =
             takeWhile is_digit s # Split b CHR '':''"
    by (rule Split_at_first_sep)
  also have "Split b CHR '':'' = [b]"
    by (rule Split_no_sep [OF digits_no_colon [OF b]])
  finally show ?thesis
    using s r by simp
qed

lemma MatchString_ratio_digits:
  assumes "MatchString_ratio s"
  shows "takeWhile is_digit s \<noteq> []" "list_all is_digit (takeWhile is_digit s)"
        "tl (dropWhile is_digit s) \<noteq> []" "list_all is_digit (tl (dropWhile is_digit s))"
  using assms
  by (auto simp: MatchString_ratio_def Let_def list_all_iff split: list.splits
           dest: set_takeWhileD)

lemma Atoi_digits:
  assumes "ds \<noteq> []" "list_all is_digit ds"
  shows "Atoi ds = (if parse_dec ds \<le> 2 ^ 63 - 1 then Some (word_of_nat (parse_dec ds))
                    else None)"
proof -
  obtain c cs where ds: "ds = c # cs"
    using assms(1) by (cases ds) auto
  have "is_digit c" using assms(2) ds by simp
  then have "c \<noteq> CHR ''-''" "c \<noteq> CHR ''+''"
    by (auto simp: is_digit_def)
  then show ?thesis
    using assms unfolding ds by (simp add: Atoi_def Let_def)
qed

text \<open>What the validator of a ratio flag does on a string.\<close>

lemma RatioFlag_validator_no_match:
  "\<not> MatchString_ratio s \<Longrightarrow>
   RatioFlag_validator name cl (Some (StringPtr s)) =
   (cl, ReturnsError (''invalid input for --'' @ name @ ''. A valid example is 1:2''))"
  by simp

lemma RatioFlag_validator_match:
  assumes "MatchString_ratio s"
  shows "RatioFlag_validator name cl (Some (StringPtr s)) =
     (let a = parse_dec (takeWhile is_digit s); b = parse_dec (tl (dropWhile is_digit s)) in
      if a \<le> 2 ^ 63 - 1 \<and> b \<le> 2 ^ 63 - 1 then
        (cl\<lparr>Flags := (Flags cl)(name \<mapsto>
              Float64Ptr (f64_div (float64_of_int (word_of_nat b))
                                  (float64_of_int (word_of_nat a))))\<rparr>, ReturnsNil)
      else
        (cl, ReturnsError (''invalid input for --'' @ name @
               ''. Ratio values must be integers. A valid example is 1:2'')))"
  using assms MatchString_ratio_digits [OF assms]
  by (simp add: MatchString_ratio_Split Atoi_digits Let_def)

subsection \<open>Worked values\<close>

lemma MatchString_ratio_examples:
  "MatchString_ratio ''0:5''" "MatchString_ratio ''1:2''" "MatchString_ratio ''2:1''"
  "\<not> MatchString_ratio ''abc''" "\<not> MatchString_ratio ''1-2''"
  "MatchString_ratio ''99999999999999999999:1''"
  by (simp_all add: MatchString_ratio_def is_digit_def)

lemma float64_of_int_examples:
  "float64_of_int 0 = FNum 0" "float64_of_int 1 = FNum 1"
  "float64_of_int 2 = FNum 2" "float64_of_int 5 = FNum 5"
  by (simp_all add: float64_of_int_def f64_round_def ilog2_def pow2_def round_half_even_def
        bitlen.simps)

lemma quotient_of_half: "quotient_of (1 / 2) = (1, 2)"
  by code_simp

lemma f64_round_examples:
  "f64_round 2 = FNum 2" "f64_round (1 / 2) = FNum (1 / 2)"
  by (simp_all add: f64_round_def ilog2_def pow2_def round_half_even_def bitlen.simps
        quotient_of_half)

lemma f64_div_examples:
  "f64_div (FNum 2) (FNum 1) = FNum 2"
  "f64_div (FNum 1) (FNum 2) = FNum (1 / 2)"
  "f64_div (FNum 5) (FNum 0) = FPosInf"
  by (simp_all add: f64_round_examples)

subsection \<open>Converting a positive int never gives zero\<close>














subsection \<open>The ratio flag\<close>




text \<open>
  C3 (as stated, refuted). \<open>99999999999999999999:1\<close> matches the grammar and its first
  component is not zero, but the component does not fit an \<open>int\<close>, \<open>strconv.Atoi\<close>
  fails and the validator returns the second of its two errors.
\<close>

theorem ratio_component_out_of_int_range_rejected:
  "MatchString_ratio ''99999999999999999999:1'' \<and>
   parse_dec (takeWhile is_digit ''99999999999999999999:1'') \<noteq> 0 \<and>
   RatioFlag_validator ''vcpus-to-memory-ratio'' no_flags
     (Some (StringPtr ''99999999999999999999:1'')) =
   (no_flags,
    ReturnsError
      ''invalid input for --vcpus-to-memory-ratio. Ratio values must be integers. A valid example is 1:2'')"
  by (simp add: MatchString_ratio_def is_digit_def Atoi_def parse_dec_def)

text \<open>
  C3 (amended). For every ratio flag, an input that matches the grammar
  \<open>^[0-9]+:[0-9]+$\<close>, with a non-zero first component and both components at most
  \<open>2^63 - 1\<close> (the range of \<open>int\<close>), is accepted, and the flag's value becomes the
  float64 quotient second/first; a matching input with a component beyond that range is
  rejected, and so is every input that does not match the grammar, each with an error
  that names the flag.
\<close>

theorem ratio_validator_accepts_grammar_within_int_range:
  "(MatchString_ratio s \<and> parse_dec (takeWhile is_digit s) \<noteq> 0 \<and>
    parse_dec (takeWhile is_digit s) \<le> 2 ^ 63 - 1 \<and>
    parse_dec (tl (dropWhile is_digit s)) \<le> 2 ^ 63 - 1 \<longrightarrow>
    RatioFlag_validator name cl (Some (StringPtr s)) =
    (cl\<lparr>Flags := (Flags cl)(name \<mapsto>
          Float64Ptr (f64_div
            (float64_of_int (word_of_nat (parse_dec (tl (dropWhile is_digit s)))))
            (float64_of_int (word_of_nat (parse_dec (takeWhile is_digit s))))))\<rparr>,
     ReturnsNil)) \<and>
   (MatchString_ratio s \<and>
    (2 ^ 63 - 1 < parse_dec (takeWhile is_digit s) \<or>
     2 ^ 63 - 1 < parse_dec (tl (dropWhile is_digit s))) \<longrightarrow>
    RatioFlag_validator name cl (Some (StringPtr s)) =
    (cl, ReturnsError (''invalid input for --'' @ name @
           ''. Ratio values must be integers. A valid example is 1:2''))) \<and>
   (\<not> MatchString_ratio s \<longrightarrow>
    RatioFlag_validator name cl (Some (StringPtr s)) =
    (cl, ReturnsError (''invalid input for --'' @ name @ ''. A valid example is 1:2''))) \<and>
   sublist (''--'' @ name)
     (''invalid input for --'' @ name @
      ''. Ratio values must be integers. A valid example is 1:2'') \<and>
   sublist (''--'' @ name) (''invalid input for --'' @ name @ ''. A valid example is 1:2'')"
proof (intro conjI impI)
  assume "MatchString_ratio s \<and> parse_dec (takeWhile is_digit s) \<noteq> 0 \<and>
    parse_dec (takeWhile is_digit s) \<le> 2 ^ 63 - 1 \<and>
    parse_dec (tl (dropWhile is_digit s)) \<le> 2 ^ 63 - 1"
  then show "RatioFlag_validator name cl (Some (StringPtr s)) =
    (cl\<lparr>Flags := (Flags cl)(name \<mapsto>
          Float64Ptr (f64_div
            (float64_of_int (word_of_nat (parse_dec (tl (dropWhile is_digit s)))))
            (float64_of_int (word_of_nat (parse_dec (takeWhile is_digit s))))))\<rparr>,
     ReturnsNil)"
    by (simp add: RatioFlag_validator_match Let_def del: RatioFlag_validator.simps)
next
  assume "MatchString_ratio s \<and>
    (2 ^ 63 - 1 < parse_dec (takeWhile is_digit s) \<or>
     2 ^ 63 - 1 < parse_dec (tl (dropWhile is_digit s)))"
  then show "RatioFlag_validator name cl (Some (StringPtr s)) =
    (cl, ReturnsError (''invalid input for --'' @ name @
           ''. Ratio values must be integers. A valid example is 1:2''))"
    by (auto simp add: RatioFlag_validator_match Let_def simp del: RatioFlag_validator.simps)
next
  assume "\<not> MatchString_ratio s"
  then show "RatioFlag_validator name cl (Some (StringPtr s)) =
    (cl, ReturnsError (''invalid input for --'' @ name @ ''. A valid example is 1:2''))"
    by (rule RatioFlag_validator_no_match)
next
  show "sublist (''--'' @ name)
     (''invalid input for --'' @ name @
      ''. Ratio values must be integers. A valid example is 1:2'')"
    unfolding sublist_def by (rule exI [of _ "''invalid input for ''"], rule exI) simp
  show "sublist (''--'' @ name) (''invalid input for --'' @ name @ ''. A valid example is 1:2'')"
    unfolding sublist_def by (rule exI [of _ "''invalid input for ''"], rule exI) simp
qed

theorem ratio_validator_accepts_grammar_within_int_range_witness:
  "RatioFlag_validator ''r'' no_flags (Some (StringPtr ''1:2'')) =
     (no_flags\<lparr>Flags := (Flags no_flags)(''r'' \<mapsto> Float64Ptr (FNum 2))\<rparr>, ReturnsNil) \<and>
   RatioFlag_validator ''r'' no_flags (Some (StringPtr ''2:1'')) =
     (no_flags\<lparr>Flags := (Flags no_flags)(''r'' \<mapsto> Float64Ptr (FNum (1 / 2)))\<rparr>, ReturnsNil) \<and>
   RatioFlag_validator ''r'' no_flags (Some (StringPtr ''abc'')) =
     (no_flags, ReturnsError ''invalid input for --r. A valid example is 1:2'') \<and>
   RatioFlag_validator ''r'' no_flags (Some (StringPtr ''1-2'')) =
     (no_flags, ReturnsError ''invalid input for --r. A valid example is 1:2'') \<and>
   RatioFlag_validator ''r'' no_flags (Some (StringPtr ''99999999999999999999:1'')) =
     (no_flags,
      ReturnsError ''invalid input for --r. Ratio values must be integers. A valid example is 1:2'')"
  using ratio_validator_accepts_grammar_within_int_range [of "''1:2''" "''r''" no_flags]
        ratio_validator_accepts_grammar_within_int_range [of "''2:1''" "''r''" no_flags]
        ratio_validator_accepts_grammar_within_int_range [of "''abc''" "''r''" no_flags]
        ratio_validator_accepts_grammar_within_int_range [of "''1-2''" "''r''" no_flags]
        ratio_validator_accepts_grammar_within_int_range
          [of "''99999999999999999999:1''" "''r''" no_flags]
  by (simp add: MatchString_ratio_examples parse_dec_def is_digit_def float64_of_int_examples
        f64_div_examples f64_round_examples del: RatioFlag_validator.simps)

subsection \<open>What the closures write\<close>

lemma RatioFlag_validator_frame:
  "RatioFlag_validator name cl val = (cl, snd (RatioFlag_validator name cl val)) \<or>
   (\<exists>f. RatioFlag_validator name cl val =
          (cl\<lparr>Flags := (Flags cl)(name \<mapsto> Float64Ptr f)\<rparr>, ReturnsNil))"
proof (cases val)
  case None
  then show ?thesis by simp
next
  case (Some v)
  show ?thesis
  proof (cases v)
    case (StringPtr s)
    show ?thesis
    proof (cases "MatchString_ratio s")
      case True
      then show ?thesis
        unfolding Some StringPtr
        by (auto simp add: RatioFlag_validator_match Let_def
                 simp del: RatioFlag_validator.simps)
    next
      case False
      then show ?thesis
        unfolding Some StringPtr by simp
    qed
  qed (simp_all add: Some)
qed

lemma byteQuantityProcessor_frame:
  "byteQuantityProcessor lib name cl val = (cl, snd (byteQuantityProcessor lib name cl val)) \<or>
   (\<exists>bq. byteQuantityProcessor lib name cl val =
           (cl\<lparr>Flags := (Flags cl)(name \<mapsto> ByteQuantityPtr bq)\<rparr>, ReturnsNil))"
  by (cases "(lib, name, cl, val)" rule: byteQuantityProcessor.cases)
     (auto split: option.splits)

lemma regexProcessor_frame:
  "regexProcessor lib name cl val = (cl, snd (regexProcessor lib name cl val)) \<or>
   (\<exists>r. regexProcessor lib name cl val =
          (cl\<lparr>Flags := (Flags cl)(name \<mapsto> RegexpPtr r)\<rparr>, ReturnsNil))"
  by (cases "(lib, name, cl, val)" rule: regexProcessor.cases)
     (auto split: option.splits)

lemma pathProcessor_frame:
  "pathProcessor lib name cl val = (cl, snd (pathProcessor lib name cl val)) \<or>
   (\<exists>p. pathProcessor lib name cl val =
          (cl\<lparr>Flags := (Flags cl)(name \<mapsto> StringPtr p)\<rparr>, ReturnsNil))"
  by (cases "(lib, name, cl, val)" rule: pathProcessor.cases)
     (auto split: option.splits)








text \<open>
  C10. The validator of the ratio flag and the processors of the byte-quantity, regex
  and path flags write the registry only on their successful path: whenever one of them
  returns an error, the registry is exactly what it was before the call.
\<close>

theorem rewriting_closures_fail_without_writing:
  "(snd (RatioFlag_validator name cl val) = ReturnsError e \<longrightarrow>
      fst (RatioFlag_validator name cl val) = cl) \<and>
   (snd (byteQuantityProcessor lib name cl val) = ReturnsError e \<longrightarrow>
      fst (byteQuantityProcessor lib name cl val) = cl) \<and>
   (snd (regexProcessor lib name cl val) = ReturnsError e \<longrightarrow>
      fst (regexProcessor lib name cl val) = cl) \<and>
   (snd (pathProcessor lib name cl val) = ReturnsError e \<longrightarrow>
      fst (pathProcessor lib name cl val) = cl)"
  using RatioFlag_validator_frame [of name cl val]
        byteQuantityProcessor_frame [of lib name cl val]
        regexProcessor_frame [of lib name cl val]
        pathProcessor_frame [of lib name cl val]
  by (auto simp: prod_eq_iff)

theorem rewriting_closures_fail_without_writing_witness:
  "regexProcessor example_library ''allow-list''
     (no_flags\<lparr>Flags := [''allow-list'' \<mapsto> StringPtr ''(unclosed'']\<rparr>)
     (Some (StringPtr ''(unclosed'')) =
   (no_flags\<lparr>Flags := [''allow-list'' \<mapsto> StringPtr ''(unclosed'']\<rparr>,
    ReturnsError ''Invalid regex input for --allow-list. Unable to compile the regex'') \<and>
   RatioFlag_validator ''r'' (no_flags\<lparr>Flags := [''r'' \<mapsto> StringPtr ''abc'']\<rparr>)
     (Some (StringPtr ''abc'')) =
   (no_flags\<lparr>Flags := [''r'' \<mapsto> StringPtr ''abc'']\<rparr>,
    ReturnsError ''invalid input for --r. A valid example is 1:2'')"
  using rewriting_closures_fail_without_writing
          [of "''allow-list''"
              "no_flags\<lparr>Flags := [''allow-list'' \<mapsto> StringPtr ''(unclosed'']\<rparr>"
              "Some (StringPtr ''(unclosed'')"
              "''Invalid regex input for --allow-list. Unable to compile the regex''"
              example_library]
        rewriting_closures_fail_without_writing
          [of "''r''" "no_flags\<lparr>Flags := [''r'' \<mapsto> StringPtr ''abc'']\<rparr>"
              "Some (StringPtr ''abc'')" "''invalid input for --r. A valid example is 1:2''"]
  by (simp add: prod_eq_iff example_library_def regex_invalidInputMsg_def
        MatchString_ratio_def is_digit_def)

subsection \<open>The string-options validator\<close>

lemma validOpts_loop_string:
  "validOpts_loop lib validOpts (Some (StringPtr s)) =
     (if \<exists>v \<in> set validOpts. strings_EqualFold lib v s then Some ReturnsNil else None)"
  by (induction validOpts) simp_all

lemma sublist_append_left_mono: "sublist v ys \<Longrightarrow> sublist v (ps @ ys)"
  unfolding sublist_def by (metis append.assoc)

lemma Join_lists_every_element: "v \<in> set xs \<Longrightarrow> sublist v (Join xs sep)"
proof (induction xs sep rule: Join.induct)
  case (1 sep)
  then show ?case by simp
next
  case (2 x sep)
  then show ?case by simp
next
  case (3 x y ys sep)
  show ?case
  proof (cases "v = x")
    case True
    then show ?thesis by (simp add: sublist_append_rightI)
  next
    case False
    with 3 have "sublist v (Join (y # ys) sep)" by simp
    then have "sublist v ((x @ sep) @ Join (y # ys) sep)"
      by (rule sublist_append_left_mono)
    then show ?thesis by simp
  qed
qed

text \<open>
  C7. The validator of a string-options flag with allow-list \<open>opts\<close>, run on a string,
  returns nil exactly when the string equals some element of \<open>opts\<close> under
  \<open>strings.EqualFold\<close>; otherwise it returns the error that lists the allowed values,
  joined by commas, every element of \<open>opts\<close> occurring in it. On nil it returns nil.
\<close>

theorem string_options_validator_membership:
  "(StringOptions_validationFn lib name opts cl (Some (StringPtr s)) = (cl, ReturnsNil) \<longleftrightarrow>
      (\<exists>v \<in> set opts. strings_EqualFold lib v s)) \<and>
   (\<not> (\<exists>v \<in> set opts. strings_EqualFold lib v s) \<longrightarrow>
      StringOptions_validationFn lib name opts cl (Some (StringPtr s)) =
      (cl, ReturnsError (''error '' @ name @ '' must be one of: '' @ Join opts '', ''))) \<and>
   (\<forall>v \<in> set opts.
      sublist v (''error '' @ name @ '' must be one of: '' @ Join opts '', '')) \<and>
   StringOptions_validationFn lib name opts cl None = (cl, ReturnsNil)"
proof (intro conjI impI ballI)
  show "StringOptions_validationFn lib name opts cl (Some (StringPtr s)) = (cl, ReturnsNil) \<longleftrightarrow>
      (\<exists>v \<in> set opts. strings_EqualFold lib v s)"
    by (simp add: StringOptions_validationFn_def validOpts_loop_string)
next
  assume "\<not> (\<exists>v \<in> set opts. strings_EqualFold lib v s)"
  then show "StringOptions_validationFn lib name opts cl (Some (StringPtr s)) =
      (cl, ReturnsError (''error '' @ name @ '' must be one of: '' @ Join opts '', ''))"
    by (simp add: StringOptions_validationFn_def validOpts_loop_string)
next
  fix v
  assume "v \<in> set opts"
  then have "sublist v (Join opts '', '')"
    by (rule Join_lists_every_element)
  then have "sublist v ((''error '' @ name @ '' must be one of: '') @ Join opts '', '')"
    by (rule sublist_append_left_mono)
  then show "sublist v (''error '' @ name @ '' must be one of: '' @ Join opts '', '')"
    by simp
next
  show "StringOptions_validationFn lib name opts cl None = (cl, ReturnsNil)"
    by (simp add: StringOptions_validationFn_def)
qed

theorem string_options_validator_membership_witness:
  "StringOptions_validationFn example_library ''output'' [''a'', ''b'', ''c''] no_flags
     (Some (StringPtr ''B'')) = (no_flags, ReturnsNil) \<and>
   StringOptions_validationFn example_library ''output'' [''a'', ''b'', ''c''] no_flags
     (Some (StringPtr ''d'')) =
   (no_flags, ReturnsError ''error output must be one of: a, b, c'')"
  using string_options_validator_membership
          [of example_library "''output''" "[''a'', ''b'', ''c'']" no_flags "''B''"]
        string_options_validator_membership
          [of example_library "''output''" "[''a'', ''b'', ''c'']" no_flags "''d''"]
  by (simp add: example_library_def ascii_EqualFold_def ascii_fold_def)

subsection \<open>The regex processor\<close>

lemma regex_invalidInputMsg_names: "sublist (''--'' @ name) (regex_invalidInputMsg name @ rest)"
  unfolding regex_invalidInputMsg_def sublist_def
  by (rule exI [of _ "''Invalid regex input for ''"], rule exI) simp

text \<open>
  C8. The processor of a regex flag, run on a string, stores the compiled expression as
  the flag's value and returns nil when \<open>regexp.Compile\<close> succeeds, and returns an
  error naming the flag, writing nothing, when it fails. Run on a compiled expression or
  on nil it returns nil and changes nothing; run on a value of any other kind it returns
  an error.
\<close>

theorem regex_processor_compiles_or_fails:
  "(regexp_Compile lib s = Some r \<longrightarrow>
      regexProcessor lib name cl (Some (StringPtr s)) =
      (cl\<lparr>Flags := (Flags cl)(name \<mapsto> RegexpPtr r)\<rparr>, ReturnsNil)) \<and>
   (regexp_Compile lib s = None \<longrightarrow>
      regexProcessor lib name cl (Some (StringPtr s)) =
      (cl, ReturnsError (regex_invalidInputMsg name @ '' Unable to compile the regex''))) \<and>
   sublist (''--'' @ name) (regex_invalidInputMsg name @ '' Unable to compile the regex'') \<and>
   regexProcessor lib name cl (Some (RegexpPtr r')) = (cl, ReturnsNil) \<and>
   regexProcessor lib name cl None = (cl, ReturnsNil) \<and>
   ((\<forall>x. v \<noteq> StringPtr x) \<and> (\<forall>x. v \<noteq> RegexpPtr x) \<longrightarrow>
      regexProcessor lib name cl (Some v) =
      (cl, ReturnsError (regex_invalidInputMsg name @ '' Input type is unsupported'')))"
proof (intro conjI impI)
  show "sublist (''--'' @ name) (regex_invalidInputMsg name @ '' Unable to compile the regex'')"
    by (rule regex_invalidInputMsg_names)
next
  assume "(\<forall>x. v \<noteq> StringPtr x) \<and> (\<forall>x. v \<noteq> RegexpPtr x)"
  then show "regexProcessor lib name cl (Some v) =
      (cl, ReturnsError (regex_invalidInputMsg name @ '' Input type is unsupported''))"
    by (cases v) simp_all
qed simp_all

theorem regex_processor_compiles_or_fails_witness:
  "regexProcessor example_library ''allow-list'' no_flags (Some (StringPtr ''^a.*z$'')) =
     (no_flags\<lparr>Flags := (Flags no_flags)(''allow-list'' \<mapsto> RegexpPtr (Regexp ''^a.*z$''))\<rparr>,
      ReturnsNil) \<and>
   regexProcessor example_library ''allow-list'' no_flags (Some (StringPtr ''(unclosed'')) =
     (no_flags,
      ReturnsError ''Invalid regex input for --allow-list. Unable to compile the regex'') \<and>
   regexProcessor example_library ''allow-list'' no_flags (Some (IntPtr 3)) =
     (no_flags,
      ReturnsError ''Invalid regex input for --allow-list. Input type is unsupported'')"
  using regex_processor_compiles_or_fails
          [of example_library "''^a.*z$''" "Regexp ''^a.*z$''" "''allow-list''" no_flags]
        regex_processor_compiles_or_fails
          [of example_library "''(unclosed''" _ "''allow-list''" no_flags _ "IntPtr 3"]
  by (simp add: example_library_def regex_invalidInputMsg_def)

end
